theory Spec2Isabelle
  imports Main
begin

section \<open>The quota store (Redis)\<close>

text \<open>
  Instants are whole seconds. The Redis database holds, per key, an integer value and an
  optional expiry instant. A key whose expiry instant has been reached is gone for every
  command: GET answers nil, TTL answers -2, INCR starts again from an absent key. The
  store keeps the stale entry and every command looks at it through \<open>live\<close>.
\<close>

type_synonym time = nat

record quota_entry =
  count :: int
  expire_at :: "time option"

type_synonym redis_store = "string \<rightharpoonup> quota_entry"

definition MAX_DAILY_REQUESTS :: int where
  "MAX_DAILY_REQUESTS = 100"

definition RATE_LIMIT_DURATION :: nat where
  "RATE_LIMIT_DURATION = 86400"

definition live :: "time \<Rightarrow> quota_entry \<Rightarrow> bool" where
  "live now e = (case expire_at e of None \<Rightarrow> True | Some t \<Rightarrow> now < t)"

definition redis_get :: "redis_store \<Rightarrow> time \<Rightarrow> string \<Rightarrow> int option" where
  "redis_get r now k =
     (case r k of
        None \<Rightarrow> None
      | Some e \<Rightarrow> if live now e then Some (count e) else None)"

definition redis_setex :: "redis_store \<Rightarrow> time \<Rightarrow> string \<Rightarrow> nat \<Rightarrow> int \<Rightarrow> redis_store" where
  "redis_setex r now k seconds v = r(k \<mapsto> \<lparr>count = v, expire_at = Some (now + seconds)\<rparr>)"

definition redis_incr :: "redis_store \<Rightarrow> time \<Rightarrow> string \<Rightarrow> redis_store" where
  "redis_incr r now k =
     (case r k of
        None \<Rightarrow> r(k \<mapsto> \<lparr>count = 1, expire_at = None\<rparr>)
      | Some e \<Rightarrow>
          if live now e then r(k \<mapsto> e\<lparr>count := count e + 1\<rparr>)
          else r(k \<mapsto> \<lparr>count = 1, expire_at = None\<rparr>))"

definition redis_ttl :: "redis_store \<Rightarrow> time \<Rightarrow> string \<Rightarrow> int" where
  "redis_ttl r now k =
     (case r k of
        None \<Rightarrow> - 2
      | Some e \<Rightarrow>
          if \<not> live now e then - 2
          else (case expire_at e of None \<Rightarrow> - 1 | Some t \<Rightarrow> int (t - now)))"

definition rate_key :: "string \<Rightarrow> string" where
  "rate_key phone_number = ''rate_limit:'' @ phone_number"

section \<open>RateLimiter.check_limit\<close>

text \<open>
  The result is the function's return value (True: the limit is exceeded) and the store
  after the call. A call makes two round trips to Redis: the GET, sent on the client and
  answered at the instant \<open>now\<close>, and the pipeline with the SETEX or the INCR, executed at
  the instant \<open>later\<close>.
\<close>

definition check_limit :: "time \<Rightarrow> time \<Rightarrow> string \<Rightarrow> redis_store \<Rightarrow> bool \<times> redis_store" where
  "check_limit now later phone_number r =
     (case redis_get r now (rate_key phone_number) of
        None \<Rightarrow>
          (False, redis_setex r later (rate_key phone_number) RATE_LIMIT_DURATION 1)
      | Some current_count \<Rightarrow>
          if current_count \<ge> MAX_DAILY_REQUESTS then (True, r)
          else (False, redis_incr r later (rate_key phone_number)))"

text \<open>Successive calls for one phone number, one for each pair of instants of the list.\<close>

fun check_limit_calls ::
  "(time \<times> time) list \<Rightarrow> string \<Rightarrow> redis_store \<Rightarrow> bool list \<times> redis_store" where
  "check_limit_calls [] phone_number r = ([], r)"
| "check_limit_calls (t # ts) phone_number r =
     (case check_limit (fst t) (snd t) phone_number r of
        (limited, r1) \<Rightarrow>
          (case check_limit_calls ts phone_number r1 of
             (rest, r2) \<Rightarrow> (limited # rest, r2)))"

text \<open>No counter of the store is above the daily maximum.\<close>

definition within_limit :: "redis_store \<Rightarrow> bool" where
  "within_limit r = (\<forall>k e. r k = Some e \<longrightarrow> count e \<le> MAX_DAILY_REQUESTS)"

section \<open>The relational store (the SQLAlchemy models)\<close>

text \<open>
  A row of the \<open>user\<close> table and a row of the \<open>session\<close> table. \<open>uid\<close> and \<open>sid\<close>
  are the two \<open>id\<close> primary keys; \<open>user_id\<close> is the session's foreign key. Nullable
  columns are options.
\<close>

record user =
  uid :: nat
  phone_number :: string
  created_at :: time
  last_request :: "time option"
  request_count :: int

record session =
  sid :: nat
  user_id :: nat
  person_image :: "string option"
  garment_image :: "string option"
  result_image :: "string option"
  session_created_at :: time
  completed_at :: "time option"

record database =
  users :: "user list"
  sessions :: "session list"

text \<open>
  The Python object behind \<open>user\<close> in \<open>rate_limit\<close>. A column default
  (\<open>default=0\<close>) is applied by the INSERT statement, so the attribute of an object
  that was constructed with \<open>User(phone_number=...)\<close> and not flushed yet reads None.
\<close>

record user_object =
  persistent :: "user option"
  obj_phone_number :: string
  obj_last_request :: "time option"
  obj_request_count :: "int option"

definition User :: "string \<Rightarrow> user_object" where
  "User p = \<lparr>persistent = None, obj_phone_number = p,
              obj_last_request = None, obj_request_count = None\<rparr>"

definition load_user :: "user \<Rightarrow> user_object" where
  "load_user u = \<lparr>persistent = Some u, obj_phone_number = phone_number u,
                   obj_last_request = last_request u,
                   obj_request_count = Some (request_count u)\<rparr>"

definition next_id :: "nat list \<Rightarrow> nat" where
  "next_id ids = Suc (fold max ids 0)"

definition first_user :: "database \<Rightarrow> string option \<Rightarrow> user option" where
  "first_user d p = find (\<lambda>u. Some (phone_number u) = p) (users d)"

definition first_active_session :: "database \<Rightarrow> nat \<Rightarrow> session option" where
  "first_active_session d u =
     find (\<lambda>x. user_id x = u \<and> completed_at x = None) (sessions d)"

text \<open>What a successful commit writes for the user object: an INSERT for a new one
  (with the column defaults), an UPDATE of its row otherwise.\<close>

definition flush_user :: "time \<Rightarrow> user_object \<Rightarrow> database \<Rightarrow> database" where
  "flush_user now obj d =
     (case persistent obj of
        None \<Rightarrow>
          d\<lparr>users := users d @
             [\<lparr>uid = next_id (map uid (users d)),
               phone_number = obj_phone_number obj,
               created_at = now,
               last_request = obj_last_request obj,
               request_count = (case obj_request_count obj of None \<Rightarrow> 0 | Some c \<Rightarrow> c)\<rparr>]\<rparr>
      | Some row \<Rightarrow>
          d\<lparr>users := map (\<lambda>u. if uid u = uid row
                 then u\<lparr>last_request := obj_last_request obj,
                        request_count :=
                          (case obj_request_count obj of None \<Rightarrow> request_count u | Some c \<Rightarrow> c)\<rparr>
                 else u) (users d)\<rparr>)"

definition insert_session :: "time \<Rightarrow> nat \<Rightarrow> string option \<Rightarrow> database \<Rightarrow> database" where
  "insert_session now u media_url d =
     d\<lparr>sessions := sessions d @
        [\<lparr>sid = next_id (map sid (sessions d)), user_id = u, person_image = media_url,
          garment_image = None, result_image = None, session_created_at = now,
          completed_at = None\<rparr>]\<rparr>"

definition update_session :: "session \<Rightarrow> database \<Rightarrow> database" where
  "update_session x d = d\<lparr>sessions := map (\<lambda>y. if sid y = sid x then x else y) (sessions d)\<rparr>"

section \<open>Requests, collaborators and responses\<close>

type_synonym image = string

datatype exn = RedisError | DatabaseError | TypeError | AttributeError | TwilioError

text \<open>A response is a message body with its status, or the exception that left the view
  function (Flask answers 500).\<close>

datatype response = Response string nat | InternalServerError exn

record form =
  form_From :: "string option"
  form_MediaUrl0 :: "string option"

text \<open>The file at the path the prediction service returned first.\<close>

datatype tryon_file = Missing | Unreadable | Readable image

datatype prediction = PredictRaises | PredictReturns "tryon_file list"

text \<open>
  What the collaborators do during one request: whether Redis or a database query or
  commit raises, how many seconds pass between the answer to the GET and the execution
  of the pipeline, what Twilio delivers for a message and a media identifier (None when
  the fetch raises or the status is not 200), what the prediction delivers, and whether
  the outbound send raises.
\<close>

record outcomes =
  redis_fault :: bool
  pipeline_delay :: nat
  rl_query_fault :: bool
  rl_commit_fault :: bool
  wh_query_fault :: bool
  wh_commit_fault :: bool
  twilio_media :: "string \<Rightarrow> string \<Rightarrow> image option"
  prediction :: prediction
  send_fault :: bool

record app_state =
  redis :: redis_store
  db :: database
  files :: "string \<rightharpoonup> image"
  outbox :: "(string option \<times> string option) list"

definition truthy :: "string option \<Rightarrow> bool" where
  "truthy v = (case v of None \<Rightarrow> False | Some x \<Rightarrow> x \<noteq> [])"

section \<open>ImageProcessor\<close>

text \<open>Python's \<open>str.split('/')\<close>.\<close>

fun split_slash :: "string \<Rightarrow> string list" where
  "split_slash [] = [[]]"
| "split_slash (c # cs) =
     (if c = CHR ''/'' then [] # split_slash cs
      else (case split_slash cs of
              [] \<Rightarrow> [[c]]
            | part # parts \<Rightarrow> (c # part) # parts))"

text \<open>
  Every exception inside \<open>download_from_twilio\<close> is caught and gives None: a reference
  that is None, a reference with fewer than three parts (the index -3 is out of range),
  a failing fetch.
\<close>

definition download_from_twilio ::
  "outcomes \<Rightarrow> string option \<Rightarrow> string \<Rightarrow> (string \<rightharpoonup> image) \<Rightarrow> string option \<times> (string \<rightharpoonup> image)" where
  "download_from_twilio out media_url filename fs =
     (case media_url of
        None \<Rightarrow> (None, fs)
      | Some url \<Rightarrow>
          (let parts = split_slash url in
           if length parts < 3 then (None, fs)
           else
             (let message_sid = parts ! (length parts - 3);
                  media_sid = parts ! (length parts - 1)
              in case twilio_media out message_sid media_sid of
                   None \<Rightarrow> (None, fs)
                 | Some content \<Rightarrow> (Some filename, fs(filename \<mapsto> content)))))"

definition result_locator :: "string option \<Rightarrow> string" where
  "result_locator NGROK_URL =
     (case NGROK_URL of None \<Rightarrow> ''None'' | Some u \<Rightarrow> u) @ ''/static/result.png''"

definition process_virtual_tryon ::
  "string option \<Rightarrow> outcomes \<Rightarrow> string option \<Rightarrow> string option \<Rightarrow> (string \<rightharpoonup> image)
     \<Rightarrow> string option \<times> (string \<rightharpoonup> image)" where
  "process_virtual_tryon NGROK_URL out person_image_url garment_image_url fs =
     (case download_from_twilio out person_image_url ''person_image.jpg'' fs of
        (person_file, fs1) \<Rightarrow>
     (case download_from_twilio out garment_image_url ''garment_image.jpg'' fs1 of
        (garment_file, fs2) \<Rightarrow>
          if \<not> (truthy person_file \<and> truthy garment_file) then (None, fs2)
          else
            (case prediction out of
               PredictRaises \<Rightarrow> (None, fs2)
             | PredictReturns result \<Rightarrow>
                 (case result of
                    [] \<Rightarrow> (None, fs2)
                  | try_on_image # _ \<Rightarrow>
                      (case try_on_image of
                         Missing \<Rightarrow> (None, fs2)
                       | Unreadable \<Rightarrow> (None, fs2)
                       | Readable img \<Rightarrow>
                           (Some (result_locator NGROK_URL),
                            fs2(''static/result.png'' \<mapsto> img)))))))"

section \<open>The webhook route\<close>

text \<open>
  The state holds what is committed. Within a request, an assignment to a mapped object
  and \<open>db.session.add\<close> change the request's own SQLAlchemy session only;
  \<open>db.session.commit()\<close> writes them, and whatever is uncommitted when the request ends
  is discarded with that session. So each branch of the view function changes \<open>db\<close>
  exactly where the source commits. Files are written at once.

  \<open>start_session\<close> is the body shared by the first and the last branch of
  \<open>webhook\<close>: a new Session with the person image, committed, and the reply.
\<close>

definition start_session ::
  "string \<Rightarrow> outcomes \<Rightarrow> time \<Rightarrow> user \<Rightarrow> string option \<Rightarrow> app_state \<Rightarrow> response \<times> app_state" where
  "start_session reply out now usr media_url s =
     (if wh_commit_fault out then (InternalServerError DatabaseError, s)
      else (Response reply 200, s\<lparr>db := insert_session now (uid usr) media_url (db s)\<rparr>))"

text \<open>
  The view function reads (the User of the sender and its first active Session, lines
  218 to 222) and then acts on what it read (lines 224 to 256). \<open>user.id\<close> on a missing
  User raises AttributeError.
\<close>

definition webhook_read :: "form \<Rightarrow> database \<Rightarrow> exn + user \<times> session option" where
  "webhook_read frm d =
     (case first_user d (form_From frm) of
        None \<Rightarrow> Inl AttributeError
      | Some usr \<Rightarrow> Inr (usr, first_active_session d (uid usr)))"

definition webhook_act ::
  "string option \<Rightarrow> outcomes \<Rightarrow> time \<Rightarrow> form \<Rightarrow> user \<Rightarrow> session option \<Rightarrow> app_state
     \<Rightarrow> response \<times> app_state" where
  "webhook_act NGROK_URL out now frm usr active s =
     (let sender_number = form_From frm; media_url = form_MediaUrl0 frm in
      case active of
        None \<Rightarrow>
          start_session
            ''Great! Now please send the image of the garment you want to try on.''
            out now usr media_url s
      | Some active_session \<Rightarrow>
          if \<not> truthy (garment_image active_session) then
            (case process_virtual_tryon NGROK_URL out
                    (person_image active_session) media_url (files s) of
               (try_on_result, fs) \<Rightarrow>
                 if truthy try_on_result then
                   if wh_commit_fault out
                   then (InternalServerError DatabaseError, s\<lparr>files := fs\<rparr>)
                   else
                     (let s1 = s\<lparr>files := fs,
                                db := update_session
                                  (active_session\<lparr>garment_image := media_url,
                                     result_image := try_on_result,
                                     completed_at := Some now\<rparr>) (db s)\<rparr>
                      in if send_fault out then (InternalServerError TwilioError, s1)
                         else (Response ''Here is your virtual try-on result!'' 200,
                               s1\<lparr>outbox := outbox s1 @
                                    [(sender_number, try_on_result)]\<rparr>))
                 else
                   (Response ''Sorry, something went wrong with the try-on process.'' 200,
                    s\<lparr>files := fs\<rparr>))
          else
            start_session
              ''Starting a new virtual try-on session. Please send the garment image.''
              out now usr media_url s)"

definition webhook_finish ::
  "string option \<Rightarrow> outcomes \<Rightarrow> time \<Rightarrow> form \<Rightarrow> exn + user \<times> session option \<Rightarrow> app_state
     \<Rightarrow> response \<times> app_state" where
  "webhook_finish NGROK_URL out now frm rd s =
     (case rd of
        Inl e \<Rightarrow> (InternalServerError e, s)
      | Inr (usr, active) \<Rightarrow> webhook_act NGROK_URL out now frm usr active s)"

definition webhook ::
  "string option \<Rightarrow> outcomes \<Rightarrow> time \<Rightarrow> form \<Rightarrow> app_state \<Rightarrow> response \<times> app_state" where
  "webhook NGROK_URL out now frm s =
     (if \<not> truthy (form_MediaUrl0 frm) then
        (Response ''We didn't receive an image. Please try sending your image again.'' 200, s)
      else if wh_query_fault out then (InternalServerError DatabaseError, s)
      else webhook_finish NGROK_URL out now frm (webhook_read frm (db s)) s)"

text \<open>
  The decorator: \<open>rate_limit f\<close> is the decorated view function. The pending changes of
  the user object reach the database only through the commit; when the commit raises, the
  rollback drops them and \<open>f\<close> is called all the same.
\<close>

definition rate_limit ::
  "(outcomes \<Rightarrow> time \<Rightarrow> form \<Rightarrow> app_state \<Rightarrow> response \<times> app_state)
     \<Rightarrow> outcomes \<Rightarrow> time \<Rightarrow> form \<Rightarrow> app_state \<Rightarrow> response \<times> app_state" where
  "rate_limit f out now frm s =
     (case form_From frm of
        None \<Rightarrow> (Response ''Unable to identify phone number.'' 400, s)
      | Some phone \<Rightarrow>
          if phone = [] then (Response ''Unable to identify phone number.'' 400, s)
          else if redis_fault out then (InternalServerError RedisError, s)
          else
            (case check_limit now (now + pipeline_delay out) phone (redis s) of
               (limited, r) \<Rightarrow>
                 (let s1 = s\<lparr>redis := r\<rparr> in
                  if limited then
                    (Response
                       ''You've reached your daily limit of 100 requests. Please try again tomorrow.''
                       429, s1)
                  else if rl_query_fault out then (InternalServerError DatabaseError, s1)
                  else
                    (let usr = (case first_user (db s1) (Some phone) of
                                  None \<Rightarrow> User phone
                                | Some row \<Rightarrow> load_user row);
                         usr = usr\<lparr>obj_last_request := Some now\<rparr>
                     in case obj_request_count usr of
                          None \<Rightarrow> (InternalServerError TypeError, s1)
                        | Some c \<Rightarrow>
                            (let usr = usr\<lparr>obj_request_count := Some (c + 1)\<rparr>;
                                 s2 = (if rl_commit_fault out then s1
                                       else s1\<lparr>db := flush_user now usr (db s1)\<rparr>)
                             in f out now frm s2)))))"

definition webhook_route ::
  "string option \<Rightarrow> outcomes \<Rightarrow> time \<Rightarrow> form \<Rightarrow> app_state \<Rightarrow> response \<times> app_state" where
  "webhook_route NGROK_URL = rate_limit (webhook NGROK_URL)"

section \<open>The other routes\<close>

record limits =
  limits_phone_number :: string
  daily_requests_used :: int
  daily_requests_remaining :: int
  reset_in_seconds :: int
  total_requests_all_time :: int
  limits_last_request :: "time option"

definition check_limits :: "time \<Rightarrow> string \<Rightarrow> app_state \<Rightarrow> limits \<times> app_state" where
  "check_limits now phone s =
     (let current_count = redis_get (redis s) now (rate_key phone);
          ttl = redis_ttl (redis s) now (rate_key phone);
          usr = first_user (db s) (Some phone)
      in (\<lparr>limits_phone_number = phone,
           daily_requests_used = (case current_count of None \<Rightarrow> 0 | Some c \<Rightarrow> c),
           daily_requests_remaining =
             MAX_DAILY_REQUESTS - (case current_count of None \<Rightarrow> 0 | Some c \<Rightarrow> c),
           reset_in_seconds = (if ttl > 0 then ttl else 86400),
           total_requests_all_time = (case usr of None \<Rightarrow> 0 | Some u \<Rightarrow> request_count u),
           limits_last_request = (case usr of None \<Rightarrow> None | Some u \<Rightarrow> last_request u)\<rparr>,
          s))"


section \<open>Runs of the application\<close>

record event =
  ev_outcomes :: outcomes
  ev_time :: time
  ev_form :: form

definition handle :: "string option \<Rightarrow> event \<Rightarrow> app_state \<Rightarrow> response \<times> app_state" where
  "handle NGROK_URL ev s = webhook_route NGROK_URL (ev_outcomes ev) (ev_time ev) (ev_form ev) s"

fun run :: "string option \<Rightarrow> event list \<Rightarrow> app_state \<Rightarrow> app_state" where
  "run NGROK_URL [] s = s"
| "run NGROK_URL (ev # evs) s = run NGROK_URL evs (snd (handle NGROK_URL ev s))"


definition active_sessions_of :: "database \<Rightarrow> string \<Rightarrow> session list" where
  "active_sessions_of d p =
     filter (\<lambda>x. completed_at x = None \<and>
                 user_id x \<in> set (map uid (filter (\<lambda>u. phone_number u = p) (users d))))
       (sessions d)"





section \<open>Requests that overlap\<close>

text \<open>
  The server runs the view functions in several threads. The two round trips of
  \<open>check_limit\<close>: \<open>check_limit_get\<close> is the GET with the branch it selects,
  \<open>check_limit_execute\<close> the pipeline.
\<close>

datatype branch = Create | Limited | Increment

definition check_limit_get :: "time \<Rightarrow> string \<Rightarrow> redis_store \<Rightarrow> branch" where
  "check_limit_get now phone r =
     (case redis_get r now (rate_key phone) of
        None \<Rightarrow> Create
      | Some current_count \<Rightarrow>
          if current_count \<ge> MAX_DAILY_REQUESTS then Limited else Increment)"

definition check_limit_execute :: "time \<Rightarrow> string \<Rightarrow> branch \<Rightarrow> redis_store \<Rightarrow> bool \<times> redis_store" where
  "check_limit_execute later phone b r =
     (case b of
        Create \<Rightarrow> (False, redis_setex r later (rate_key phone) RATE_LIMIT_DURATION 1)
      | Limited \<Rightarrow> (True, r)
      | Increment \<Rightarrow> (False, redis_incr r later (rate_key phone)))"

text \<open>Two calls, in two threads, whose GETs are both answered before either pipeline
  is executed.\<close>

definition check_limit_overlapped ::
  "time \<Rightarrow> time \<Rightarrow> string \<Rightarrow> redis_store \<Rightarrow> bool \<times> bool \<times> redis_store" where
  "check_limit_overlapped now later phone r =
     (let b1 = check_limit_get now phone r;
          b2 = check_limit_get now phone r
      in case check_limit_execute later phone b1 r of
           (limited1, r1) \<Rightarrow>
             (case check_limit_execute later phone b2 r1 of
                (limited2, r2) \<Rightarrow> (limited1, limited2, r2)))"

text \<open>Two requests with an image, in two threads, whose queries are both answered
  before either acts: both read the database \<open>db s\<close>.\<close>

definition webhook_overlapped ::
  "string option \<Rightarrow> outcomes \<Rightarrow> outcomes \<Rightarrow> time \<Rightarrow> form \<Rightarrow> form \<Rightarrow> app_state
     \<Rightarrow> response \<times> response \<times> app_state" where
  "webhook_overlapped NGROK_URL out1 out2 now frm1 frm2 s =
     (let rd1 = webhook_read frm1 (db s);
          rd2 = webhook_read frm2 (db s)
      in case webhook_finish NGROK_URL out1 now frm1 rd1 s of
           (resp1, s1) \<Rightarrow>
             (case webhook_finish NGROK_URL out2 now frm2 rd2 s1 of
                (resp2, s2) \<Rightarrow> (resp1, resp2, s2)))"

section \<open>Example data\<close>

text \<open>A media reference as Twilio sends it; a request on which no collaborator fails,
  but for the prediction given; a store that holds one User row and nothing else; an
  empty store.\<close>

definition media_ref :: "string \<Rightarrow> string" where
  "media_ref m = ''https://api.twilio.com/2010-04-01/Accounts/AC1/Messages/MM1/Media/'' @ m"

definition outcome :: "prediction \<Rightarrow> outcomes" where
  "outcome p =
     \<lparr>redis_fault = False, pipeline_delay = 0, rl_query_fault = False,
      rl_commit_fault = False, wh_query_fault = False, wh_commit_fault = False,
      twilio_media = (\<lambda>message_sid media_sid. Some (''image '' @ media_sid)),
      prediction = p, send_fault = False\<rparr>"

definition message :: "time \<Rightarrow> string \<Rightarrow> string option \<Rightarrow> prediction \<Rightarrow> event" where
  "message t phone media p =
     \<lparr>ev_outcomes = outcome p, ev_time = t,
      ev_form = \<lparr>form_From = Some phone, form_MediaUrl0 = media\<rparr>\<rparr>"

definition alice :: user where
  "alice = \<lparr>uid = 1, phone_number = ''+15550100'', created_at = 0,
            last_request = None, request_count = 0\<rparr>"

definition seeded :: app_state where
  "seeded = \<lparr>redis = Map.empty, db = \<lparr>users = [alice], sessions = []\<rparr>,
             files = Map.empty, outbox = []\<rparr>"

definition fresh :: app_state where
  "fresh = \<lparr>redis = Map.empty, db = \<lparr>users = [], sessions = []\<rparr>,
            files = Map.empty, outbox = []\<rparr>"

text \<open>The store after the User of \<open>seeded\<close> has sent a first image: one active
  Session that waits for the garment image.\<close>

definition awaiting :: app_state where
  "awaiting =
     seeded\<lparr>db := \<lparr>users = [alice\<lparr>last_request := Some 10, request_count := 1\<rparr>],
                   sessions =
                     [\<lparr>sid = 1, user_id = 1, person_image = Some (media_ref ''A''),
                       garment_image = None, result_image = None, session_created_at = 10,
                       completed_at = None\<rparr>]\<rparr>\<rparr>"


text \<open>A store in which one identity has used 99 requests of its window.\<close>

definition at99 :: redis_store where
  "at99 = [rate_key ''+15550100'' \<mapsto> \<lparr>count = 99, expire_at = Some 86400\<rparr>]"

section \<open>The rate limiter within one window\<close>

lemma check_limit_absent:
  "redis_get r now (rate_key p) = None \<Longrightarrow>
   check_limit now later p r =
     (False, r(rate_key p \<mapsto> \<lparr>count = 1, expire_at = Some (later + RATE_LIMIT_DURATION)\<rparr>))"
  by (simp add: check_limit_def redis_setex_def)

lemma check_limit_below:
  "r (rate_key p) = Some e \<Longrightarrow> live now e \<Longrightarrow> live later e \<Longrightarrow>
   count e < MAX_DAILY_REQUESTS \<Longrightarrow>
   check_limit now later p r = (False, r(rate_key p \<mapsto> e\<lparr>count := count e + 1\<rparr>))"
  by (simp add: check_limit_def redis_get_def redis_incr_def)

lemma check_limit_reached:
  "r (rate_key p) = Some e \<Longrightarrow> live now e \<Longrightarrow> MAX_DAILY_REQUESTS \<le> count e \<Longrightarrow>
   check_limit now later p r = (True, r)"
  by (simp add: check_limit_def redis_get_def)

lemma check_limit_straddle:
  "r (rate_key p) = Some e \<Longrightarrow> live now e \<Longrightarrow> \<not> live later e \<Longrightarrow>
   count e < MAX_DAILY_REQUESTS \<Longrightarrow>
   check_limit now later p r = (False, r(rate_key p \<mapsto> \<lparr>count = 1, expire_at = None\<rparr>))"
  by (simp add: check_limit_def redis_get_def redis_incr_def)

lemma check_limit_calls_live:
  "r (rate_key p) = Some e \<Longrightarrow> expire_at e = Some x \<Longrightarrow>
   \<forall>t\<in>set ts. fst t < x \<and> snd t < x \<Longrightarrow> count e \<le> MAX_DAILY_REQUESTS \<Longrightarrow>
   check_limit_calls ts p r =
     (map (\<lambda>i. MAX_DAILY_REQUESTS \<le> count e + int i) [0..<length ts],
      r(rate_key p \<mapsto> e\<lparr>count := min (count e + int (length ts)) MAX_DAILY_REQUESTS\<rparr>))"
proof (induction ts arbitrary: r e)
  case Nil
  then show ?case by (simp add: min_def map_upd_triv)
next
  case (Cons t ts)
  let ?M = MAX_DAILY_REQUESTS
  have lv: "live (fst t) e" using Cons.prems by (simp add: live_def)
  have lv2: "live (snd t) e" using Cons.prems by (simp add: live_def)
  show ?case
  proof (cases "count e < ?M")
    case True
    let ?e = "e\<lparr>count := count e + 1\<rparr>"
    let ?r = "r(rate_key p \<mapsto> ?e)"
    have step: "check_limit (fst t) (snd t) p r = (False, ?r)"
      using Cons.prems(1) lv lv2 True by (rule check_limit_below)
    have ih: "check_limit_calls ts p ?r =
       (map (\<lambda>i. ?M \<le> count ?e + int i) [0..<length ts],
        ?r(rate_key p \<mapsto> ?e\<lparr>count := min (count ?e + int (length ts)) ?M\<rparr>))"
      using Cons.prems True by (intro Cons.IH) auto
    have m: "map (\<lambda>i. ?M \<le> count e + int i) [0..<length (t # ts)] =
       False # map (\<lambda>i. ?M \<le> count ?e + int i) [0..<length ts]"
      using True by (simp add: map_upt_Suc add.assoc del: upt_Suc)
    have fin: "?r(rate_key p \<mapsto> ?e\<lparr>count := min (count ?e + int (length ts)) ?M\<rparr>) =
       r(rate_key p \<mapsto> e\<lparr>count := min (count e + int (length (t # ts))) ?M\<rparr>)"
      by (simp add: add.assoc)
    have "check_limit_calls (t # ts) p r =
       (False # map (\<lambda>i. ?M \<le> count ?e + int i) [0..<length ts],
        ?r(rate_key p \<mapsto> ?e\<lparr>count := min (count ?e + int (length ts)) ?M\<rparr>))"
      by (simp only: check_limit_calls.simps step ih prod.case)
    then show ?thesis by (simp only: m fin)
  next
    case False
    then have eq: "count e = ?M" using Cons.prems by simp
    have step: "check_limit (fst t) (snd t) p r = (True, r)"
      using Cons.prems(1) lv eq by (simp add: check_limit_reached)
    have ih: "check_limit_calls ts p r =
       (map (\<lambda>i. ?M \<le> count e + int i) [0..<length ts],
        r(rate_key p \<mapsto> e\<lparr>count := min (count e + int (length ts)) ?M\<rparr>))"
      using Cons.prems by (intro Cons.IH) auto
    have m: "map (\<lambda>i. ?M \<le> count e + int i) [0..<length (t # ts)] =
       True # map (\<lambda>i. ?M \<le> count e + int i) [0..<length ts]"
      using eq by (simp add: map_upt_Suc del: upt_Suc)
    have fin: "r(rate_key p \<mapsto> e\<lparr>count := min (count e + int (length ts)) ?M\<rparr>) =
       r(rate_key p \<mapsto> e\<lparr>count := min (count e + int (length (t # ts))) ?M\<rparr>)"
      using eq by (simp add: min_def)
    have "check_limit_calls (t # ts) p r =
       (True # map (\<lambda>i. ?M \<le> count e + int i) [0..<length ts],
        r(rate_key p \<mapsto> e\<lparr>count := min (count e + int (length ts)) ?M\<rparr>))"
      by (simp only: check_limit_calls.simps step ih prod.case)
    then show ?thesis by (simp only: m fin)
  qed
qed


lemma check_limit_within_limit:
  "within_limit r \<Longrightarrow> within_limit (snd (check_limit now later p r))"
  by (auto simp: within_limit_def check_limit_def redis_get_def redis_setex_def redis_incr_def
        MAX_DAILY_REQUESTS_def split: option.splits if_splits)

lemma check_limit_calls_within_limit:
  "within_limit r \<Longrightarrow> within_limit (snd (check_limit_calls ts p r))"
proof (induction ts arbitrary: r)
  case Nil
  then show ?case by simp
next
  case (Cons t ts)
  have "within_limit (snd (check_limit (fst t) (snd t) p r))"
    using Cons.prems by (rule check_limit_within_limit)
  then have "within_limit (snd (check_limit_calls ts p (snd (check_limit (fst t) (snd t) p r))))"
    by (rule Cons.IH)
  then show ?case by (simp add: case_prod_beta)
qed

lemma allowed_before:
  "length (filter Not (map (\<lambda>n. MAX_DAILY_REQUESTS \<le> int n) [0..<k])) = min k 100"
  by (induction k) (auto simp: MAX_DAILY_REQUESTS_def)

lemma check_limit_calls_fresh:
  assumes "redis_get r g0 (rate_key p) = None"
    and "\<forall>t\<in>set ts. fst t < e0 + RATE_LIMIT_DURATION \<and> snd t < e0 + RATE_LIMIT_DURATION"
  shows "check_limit_calls ((g0, e0) # ts) p r =
     (map (\<lambda>n. MAX_DAILY_REQUESTS \<le> int n) [0..<Suc (length ts)],
      r(rate_key p \<mapsto> \<lparr>count = min (1 + int (length ts)) MAX_DAILY_REQUESTS,
                          expire_at = Some (e0 + RATE_LIMIT_DURATION)\<rparr>))"
proof -
  let ?e = "\<lparr>count = 1, expire_at = Some (e0 + RATE_LIMIT_DURATION)\<rparr>"
  let ?r = "r(rate_key p \<mapsto> ?e)"
  have first: "check_limit (fst (g0, e0)) (snd (g0, e0)) p r = (False, ?r)"
    using assms(1) unfolding fst_conv snd_conv by (rule check_limit_absent)
  have "check_limit_calls ts p ?r =
     (map (\<lambda>i. MAX_DAILY_REQUESTS \<le> count ?e + int i) [0..<length ts],
      ?r(rate_key p \<mapsto> ?e\<lparr>count := min (count ?e + int (length ts)) MAX_DAILY_REQUESTS\<rparr>))"
    using assms(2) by (intro check_limit_calls_live[where x = "e0 + RATE_LIMIT_DURATION"])
      (simp_all add: MAX_DAILY_REQUESTS_def)
  then have rest: "check_limit_calls ts p ?r =
     (map (\<lambda>i. MAX_DAILY_REQUESTS \<le> int (Suc i)) [0..<length ts],
      r(rate_key p \<mapsto> \<lparr>count = min (1 + int (length ts)) MAX_DAILY_REQUESTS,
                          expire_at = Some (e0 + RATE_LIMIT_DURATION)\<rparr>))"
    by simp
  have m: "map (\<lambda>n. MAX_DAILY_REQUESTS \<le> int n) [0..<Suc (length ts)] =
      False # map (\<lambda>i. MAX_DAILY_REQUESTS \<le> int (Suc i)) [0..<length ts]"
    by (simp add: map_upt_Suc MAX_DAILY_REQUESTS_def del: upt_Suc of_nat_Suc)
  show ?thesis
    by (simp only: check_limit_calls.simps first rest prod.case m)
qed

lemma no_expiry_never_resets:
  "r (rate_key p) = Some \<lparr>count = c, expire_at = None\<rparr> \<Longrightarrow>
   check_limit now later p r =
     (if MAX_DAILY_REQUESTS \<le> c then (True, r)
      else (False, r(rate_key p \<mapsto> \<lparr>count = c + 1, expire_at = None\<rparr>)))"
  by (simp add: check_limit_def redis_get_def redis_incr_def live_def)

lemma quota_window_reset:
  assumes "redis_get r g0 (rate_key p) = None"
    and "\<forall>t\<in>set ts. fst t < e0 + RATE_LIMIT_DURATION \<and> snd t < e0 + RATE_LIMIT_DURATION"
  shows "\<exists>c. c = min (1 + int (length ts)) 100 \<and>
          snd (check_limit_calls ((g0, e0) # ts) p r) (rate_key p) =
             Some \<lparr>count = c, expire_at = Some (e0 + RATE_LIMIT_DURATION)\<rparr> \<and>
          (\<forall>g e. e0 + RATE_LIMIT_DURATION \<le> g \<longrightarrow>
             check_limit g e p (snd (check_limit_calls ((g0, e0) # ts) p r)) =
               (False, (snd (check_limit_calls ((g0, e0) # ts) p r))
                  (rate_key p \<mapsto> \<lparr>count = 1, expire_at = Some (e + RATE_LIMIT_DURATION)\<rparr>))) \<and>
          (\<forall>g e. g < e0 + RATE_LIMIT_DURATION \<and> e < e0 + RATE_LIMIT_DURATION \<longrightarrow>
             check_limit g e p (snd (check_limit_calls ((g0, e0) # ts) p r)) =
               (100 \<le> c, (snd (check_limit_calls ((g0, e0) # ts) p r))
                  (rate_key p \<mapsto> \<lparr>count = min (c + 1) 100,
                                      expire_at = Some (e0 + RATE_LIMIT_DURATION)\<rparr>))) \<and>
          (\<forall>g e. g < e0 + RATE_LIMIT_DURATION \<and> e0 + RATE_LIMIT_DURATION \<le> e \<and> c < 100 \<longrightarrow>
             check_limit g e p (snd (check_limit_calls ((g0, e0) # ts) p r)) =
               (False, (snd (check_limit_calls ((g0, e0) # ts) p r))
                  (rate_key p \<mapsto> \<lparr>count = 1, expire_at = None\<rparr>)))"
proof -
  let ?x = "e0 + RATE_LIMIT_DURATION"
  let ?c = "min (1 + int (length ts)) MAX_DAILY_REQUESTS"
  let ?e = "\<lparr>count = ?c, expire_at = Some ?x\<rparr>"
  let ?r = "r(rate_key p \<mapsto> ?e)"
  have eq: "snd (check_limit_calls ((g0, e0) # ts) p r) = ?r"
    using assms by (simp only: check_limit_calls_fresh snd_conv)
  have at: "?r (rate_key p) = Some ?e"
    by simp
  have reset: "check_limit g e p ?r =
      (False, ?r(rate_key p \<mapsto> \<lparr>count = 1, expire_at = Some (e + RATE_LIMIT_DURATION)\<rparr>))"
    if "?x \<le> g" for g e
  proof -
    have "redis_get ?r g (rate_key p) = None"
      using that by (simp add: redis_get_def live_def)
    then show ?thesis by (rule check_limit_absent)
  qed
  have keep: "check_limit g e p ?r =
      (100 \<le> ?c, ?r(rate_key p \<mapsto> \<lparr>count = min (?c + 1) 100, expire_at = Some ?x\<rparr>))"
    if "g < ?x" and "e < ?x" for g e
  proof (cases "?c < MAX_DAILY_REQUESTS")
    case True
    have lv: "live g ?e" using that by (simp add: live_def)
    have lv2: "live e ?e" using that by (simp add: live_def)
    have lt: "count ?e < MAX_DAILY_REQUESTS"
      using True by simp
    have "check_limit g e p ?r = (False, ?r(rate_key p \<mapsto> ?e\<lparr>count := count ?e + 1\<rparr>))"
      using at lv lv2 lt by (rule check_limit_below)
    then show ?thesis using True by (simp add: MAX_DAILY_REQUESTS_def min_def)
  next
    case False
    have lv: "live g ?e" using that by (simp add: live_def)
    have ge: "MAX_DAILY_REQUESTS \<le> count ?e"
      using False by simp
    have "check_limit g e p ?r = (True, ?r)"
      using at lv ge by (rule check_limit_reached)
    moreover have c100: "?c = MAX_DAILY_REQUESTS"
      using False by linarith
    moreover have "?r(rate_key p \<mapsto> \<lparr>count = min (?c + 1) 100, expire_at = Some ?x\<rparr>) = ?r"
      unfolding c100 by (simp add: MAX_DAILY_REQUESTS_def)
    ultimately show ?thesis by (simp add: MAX_DAILY_REQUESTS_def)
  qed
  have straddle: "check_limit g e p ?r =
      (False, ?r(rate_key p \<mapsto> \<lparr>count = 1, expire_at = None\<rparr>))"
    if "g < ?x" and "?x \<le> e" and "?c < MAX_DAILY_REQUESTS" for g e
  proof -
    have lv: "live g ?e" using that by (simp add: live_def)
    have lv2: "\<not> live e ?e" using that by (simp add: live_def)
    have lt: "count ?e < MAX_DAILY_REQUESTS"
      using that by simp
    show ?thesis
      using at lv lv2 lt by (rule check_limit_straddle)
  qed
  show ?thesis
    unfolding eq
  proof (intro exI[of _ "min (1 + int (length ts)) 100"] conjI allI impI)
    show "min (1 + int (length ts)) 100 = min (1 + int (length ts)) 100" ..
    show "?r (rate_key p) = Some \<lparr>count = min (1 + int (length ts)) 100, expire_at = Some ?x\<rparr>"
      by (simp add: MAX_DAILY_REQUESTS_def)
  next
    fix g e assume "?x \<le> g"
    then show "check_limit g e p ?r =
      (False, ?r(rate_key p \<mapsto> \<lparr>count = 1, expire_at = Some (e + RATE_LIMIT_DURATION)\<rparr>))"
      by (rule reset)
  next
    fix g e assume a: "g < ?x \<and> e < ?x"
    have "check_limit g e p ?r =
      (100 \<le> ?c, ?r(rate_key p \<mapsto> \<lparr>count = min (?c + 1) 100, expire_at = Some ?x\<rparr>))"
      using a by (intro keep) simp_all
    then show "check_limit g e p ?r =
      (100 \<le> min (1 + int (length ts)) 100,
       ?r(rate_key p \<mapsto> \<lparr>count = min (min (1 + int (length ts)) 100 + 1) 100,
                            expire_at = Some ?x\<rparr>))"
      unfolding MAX_DAILY_REQUESTS_def .
  next
    fix g e assume a: "g < ?x \<and> ?x \<le> e \<and> min (1 + int (length ts)) 100 < 100"
    have g: "g < ?x" and e: "?x \<le> e" and c: "?c < MAX_DAILY_REQUESTS"
      using a unfolding MAX_DAILY_REQUESTS_def by blast+
    show "check_limit g e p ?r = (False, ?r(rate_key p \<mapsto> \<lparr>count = 1, expire_at = None\<rparr>))"
      using g e c by (rule straddle)
  qed
qed

text \<open>
  Claim C1. A call of \<open>check_limit\<close> reads the counter at one instant and writes at a
  later one. A call that finds no live entry answers Allowed and stores the counter 1
  with an expiry one day after the write; one that finds a counter below 100 that is
  live at both instants answers Allowed and adds 1 to it; one that finds a live counter
  of 100 or more answers Limited and leaves the store as it is. Hence, for calls in one
  window that starts with no live entry, the call after k earlier ones is Limited
  exactly when k is at least 100, which is exactly when at least 100 of the earlier
  calls were Allowed, and the counter ends at the smaller of the number of calls and
  100. No call takes a counter above 100.
\<close>

theorem check_limit_quota:
  "(redis_get r now (rate_key p) = None \<longrightarrow>
      check_limit now later p r =
        (False, r(rate_key p \<mapsto> \<lparr>count = 1, expire_at = Some (later + RATE_LIMIT_DURATION)\<rparr>)))
   \<and> (\<forall>e. r (rate_key p) = Some e \<and> live now e \<and> live later e \<and> count e < 100 \<longrightarrow>
         check_limit now later p r = (False, r(rate_key p \<mapsto> e\<lparr>count := count e + 1\<rparr>)))
   \<and> (\<forall>e. r (rate_key p) = Some e \<and> live now e \<and> 100 \<le> count e \<longrightarrow>
         check_limit now later p r = (True, r))
   \<and> (redis_get r now (rate_key p) = None \<and>
        (\<forall>t\<in>set ts. fst t < later + RATE_LIMIT_DURATION \<and> snd t < later + RATE_LIMIT_DURATION) \<longrightarrow>
        (let results = fst (check_limit_calls ((now, later) # ts) p r) in
           length results = Suc (length ts) \<and>
           (\<forall>k < length results.
              results ! k = (k \<ge> 100) \<and>
              results ! k = (length (filter Not (take k results)) \<ge> 100)) \<and>
           redis_get (snd (check_limit_calls ((now, later) # ts) p r)) later (rate_key p) =
             Some (min (1 + int (length ts)) 100)))
   \<and> (within_limit r \<longrightarrow> within_limit (snd (check_limit now later p r)) \<and>
        within_limit (snd (check_limit_calls ts p r)))"
proof (intro conjI impI allI)
  assume "redis_get r now (rate_key p) = None"
  then show "check_limit now later p r =
        (False, r(rate_key p \<mapsto> \<lparr>count = 1, expire_at = Some (later + RATE_LIMIT_DURATION)\<rparr>))"
    by (rule check_limit_absent)
next
  fix e assume "r (rate_key p) = Some e \<and> live now e \<and> live later e \<and> count e < 100"
  then show "check_limit now later p r = (False, r(rate_key p \<mapsto> e\<lparr>count := count e + 1\<rparr>))"
    by (simp add: check_limit_below MAX_DAILY_REQUESTS_def)
next
  fix e assume "r (rate_key p) = Some e \<and> live now e \<and> 100 \<le> count e"
  then show "check_limit now later p r = (True, r)"
    by (simp add: check_limit_reached MAX_DAILY_REQUESTS_def)
next
  assume a: "redis_get r now (rate_key p) = None \<and>
    (\<forall>t\<in>set ts. fst t < later + RATE_LIMIT_DURATION \<and> snd t < later + RATE_LIMIT_DURATION)"
  let ?f = "\<lambda>n. MAX_DAILY_REQUESTS \<le> int n"
  have eq: "check_limit_calls ((now, later) # ts) p r =
     (map ?f [0..<Suc (length ts)],
      r(rate_key p \<mapsto> \<lparr>count = min (1 + int (length ts)) MAX_DAILY_REQUESTS,
                          expire_at = Some (later + RATE_LIMIT_DURATION)\<rparr>))"
    using a by (intro check_limit_calls_fresh) simp_all
  have tk: "take k (map ?f [0..<Suc (length ts)]) = map ?f [0..<k]" if "k < Suc (length ts)" for k
    using that by (simp add: take_map del: upt_Suc)
  have nth: "map ?f [0..<Suc (length ts)] ! k = (k \<ge> 100)" if "k < Suc (length ts)" for k
    using that by (simp add: MAX_DAILY_REQUESTS_def del: upt_Suc)
  have cnt: "(length (filter Not (map ?f [0..<k])) \<ge> 100) = (k \<ge> 100)" for k
    unfolding allowed_before by auto
  show "let results = fst (check_limit_calls ((now, later) # ts) p r) in
           length results = Suc (length ts) \<and>
           (\<forall>k < length results.
              results ! k = (k \<ge> 100) \<and>
              results ! k = (length (filter Not (take k results)) \<ge> 100)) \<and>
           redis_get (snd (check_limit_calls ((now, later) # ts) p r)) later (rate_key p) =
             Some (min (1 + int (length ts)) 100)"
    unfolding eq Let_def fst_conv snd_conv
    using tk nth cnt
    by (simp add: redis_get_def live_def RATE_LIMIT_DURATION_def MAX_DAILY_REQUESTS_def del: upt_Suc)
next
  assume "within_limit r"
  then show "within_limit (snd (check_limit now later p r))"
    by (rule check_limit_within_limit)
next
  assume "within_limit r"
  then show "within_limit (snd (check_limit_calls ts p r))"
    by (rule check_limit_calls_within_limit)
qed

theorem check_limit_quota_witness:
  "(let results = fst (check_limit_calls ((0, 0) # replicate 100 (1, 2)) ''+15550100'' Map.empty) in
     length results = 101 \<and> results ! 99 = False \<and> results ! 100 = True)
   \<and> redis_get (snd (check_limit_calls ((0, 0) # replicate 100 (1, 2)) ''+15550100'' Map.empty)) 0
        (rate_key ''+15550100'') = Some 100
   \<and> within_limit (snd (check_limit 0 0 ''+15550100'' Map.empty))"
proof -
  let ?p = "''+15550100''"
  let ?ts = "replicate 100 (1::nat, 2::nat)"
  have h: "redis_get Map.empty 0 (rate_key ?p) = None \<and>
      (\<forall>t\<in>set ?ts. fst t < 0 + RATE_LIMIT_DURATION \<and> snd t < 0 + RATE_LIMIT_DURATION)"
    by (simp add: redis_get_def RATE_LIMIT_DURATION_def)
  have w: "within_limit Map.empty"
    by (simp add: within_limit_def)
  note q = check_limit_quota [of Map.empty 0 ?p 0 ?ts]
  from q h have seq: "let results = fst (check_limit_calls ((0, 0) # ?ts) ?p Map.empty) in
           length results = Suc (length ?ts) \<and>
           (\<forall>k < length results.
              results ! k = (k \<ge> 100) \<and>
              results ! k = (length (filter Not (take k results)) \<ge> 100)) \<and>
           redis_get (snd (check_limit_calls ((0, 0) # ?ts) ?p Map.empty)) 0 (rate_key ?p) =
             Some (min (1 + int (length ?ts)) 100)"
    by blast
  from q w have inv: "within_limit (snd (check_limit 0 0 ?p Map.empty))"
    by blast
  from seq inv show ?thesis
    by (simp add: Let_def)
qed

section \<open>The window of a quota entry\<close>

text \<open>
  Claim C4. The daily reset is lost when a check straddles the expiry. The entry is
  created at second 1000 and expires at second 87400. A check reads it one second before
  the expiry and writes at the expiry: the read finds the counter 1, so the check
  answers Allowed and increments, but the entry is gone by then, so the increment
  creates the counter 1 with no expiry. From then on no check at any pair of instants
  starts a fresh window: the entry only counts up, and once it holds 100 every check
  answers Limited and leaves it as it is, a day, a year or any time later.
\<close>

theorem quota_entry_without_expiry:
  "(let p = ''+15550100'';
        r1 = snd (check_limit 1000 1000 p Map.empty);
        r2 = snd (check_limit 87399 87400 p r1)
    in r1 (rate_key p) = Some \<lparr>count = 1, expire_at = Some 87400\<rparr>
     \<and> check_limit 87399 87400 p r1 =
         (False, r1(rate_key p \<mapsto> \<lparr>count = 1, expire_at = None\<rparr>))
     \<and> redis_ttl r2 87400 (rate_key p) = - 1
     \<and> check_limit (87400 + 86400) (87400 + 86400) p r2 =
         (False, r2(rate_key p \<mapsto> \<lparr>count = 2, expire_at = None\<rparr>))
     \<and> (\<forall>now later c. check_limit now later p (r2(rate_key p \<mapsto> \<lparr>count = c, expire_at = None\<rparr>)) =
           (if 100 \<le> c then (True, r2(rate_key p \<mapsto> \<lparr>count = c, expire_at = None\<rparr>))
            else (False, r2(rate_key p \<mapsto> \<lparr>count = c + 1, expire_at = None\<rparr>)))))"
  by (simp add: Let_def check_limit_def redis_get_def redis_setex_def redis_incr_def redis_ttl_def
        live_def rate_key_def RATE_LIMIT_DURATION_def MAX_DAILY_REQUESTS_def)

section \<open>What one request does to the stores\<close>












lemma download_keeps:
  "download_from_twilio out u f fs = (res, fs') \<Longrightarrow> f \<noteq> k \<Longrightarrow> fs' k = fs k"
  by (auto simp: download_from_twilio_def Let_def split: option.splits if_splits)

lemma tryon_result:
  assumes "process_virtual_tryon N out a b fs = (res, fs')"
  shows "(res = None \<and> fs' ''static/result.png'' = fs ''static/result.png'') \<or>
     (\<exists>img rest. prediction out = PredictReturns (Readable img # rest) \<and>
        res = Some (result_locator N) \<and> fs' ''static/result.png'' = Some img)"
proof -
  obtain pf fs1 where d1: "download_from_twilio out a ''person_image.jpg'' fs = (pf, fs1)"
    by (cases "download_from_twilio out a ''person_image.jpg'' fs")
  obtain gf fs2 where d2: "download_from_twilio out b ''garment_image.jpg'' fs1 = (gf, fs2)"
    by (cases "download_from_twilio out b ''garment_image.jpg'' fs1")
  have "fs1 ''static/result.png'' = fs ''static/result.png''"
    using d1 by (rule download_keeps) simp
  moreover have "fs2 ''static/result.png'' = fs1 ''static/result.png''"
    using d2 by (rule download_keeps) simp
  ultimately have k: "fs2 ''static/result.png'' = fs ''static/result.png''"
    by simp
  show ?thesis
    using assms k
    by (auto simp: process_virtual_tryon_def d1 d2
          split: if_splits prediction.splits list.splits tryon_file.splits)
qed

lemma truthy_locator: "truthy (Some (result_locator N))"
  by (simp add: truthy_def result_locator_def)


lemma rate_limit_called:
  assumes "form_From frm = Some phone" and "phone \<noteq> []" and "\<not> redis_fault out"
    and "check_limit now (now + pipeline_delay out) phone (redis s) = (False, r)" and "\<not> rl_query_fault out"
    and "first_user (db s) (Some phone) = Some row"
  shows "rate_limit f out now frm s =
     f out now frm
       (s\<lparr>redis := r,
          db := (if rl_commit_fault out then db s
                 else flush_user now
                        ((load_user row)\<lparr>obj_last_request := Some now,
                           obj_request_count := Some (request_count row + 1)\<rparr>) (db s))\<rparr>)"
  using assms by (simp add: rate_limit_def Let_def load_user_def)

lemma rate_limit_rejected:
  assumes "form_From frm = Some phone" and "phone \<noteq> []" and "\<not> redis_fault out"
    and "check_limit now (now + pipeline_delay out) phone (redis s) = (limited, r)"
    and "limited \<or> rl_query_fault out \<or> first_user (db s) (Some phone) = None"
  shows "rate_limit f out now frm s =
     (if limited then
        Response ''You've reached your daily limit of 100 requests. Please try again tomorrow.'' 429
      else if rl_query_fault out then InternalServerError DatabaseError
      else InternalServerError TypeError,
      s\<lparr>redis := r\<rparr>)"
  using assms by (auto simp add: rate_limit_def Let_def User_def)




section \<open>At most one active Session\<close>

lemmas ev_defs = handle_def webhook_route_def rate_limit_def webhook_def webhook_finish_def
  webhook_read_def webhook_act_def start_session_def media_ref_def
  message_def outcome_def check_limit_def redis_get_def redis_setex_def redis_incr_def live_def
  rate_key_def first_user_def first_active_session_def load_user_def User_def flush_user_def
  insert_session_def update_session_def next_id_def truthy_def process_virtual_tryon_def
  download_from_twilio_def result_locator_def MAX_DAILY_REQUESTS_def RATE_LIMIT_DURATION_def
  Let_def alice_def seeded_def fresh_def awaiting_def













section \<open>The limits route\<close>

text \<open>
  Claim C8. \<open>check_limits\<close> leaves the whole state (the quota store, the User and
  Session rows, the files) as it found it, for every identity; and for an identity with
  no live quota entry it reports 0 requests used and 100 remaining (and 86400 seconds to
  the reset).
\<close>

theorem check_limits_read_only:
  "snd (check_limits now phone s) = s \<and>
   limits_phone_number (fst (check_limits now phone s)) = phone \<and>
   (redis_get (redis s) now (rate_key phone) = None \<longrightarrow>
      daily_requests_used (fst (check_limits now phone s)) = 0 \<and>
      daily_requests_remaining (fst (check_limits now phone s)) = 100 \<and>
      reset_in_seconds (fst (check_limits now phone s)) = 86400)"
  by (auto simp: check_limits_def Let_def MAX_DAILY_REQUESTS_def redis_get_def redis_ttl_def
        split: option.splits if_splits)

theorem check_limits_read_only_witness:
  "snd (check_limits 50 ''+15550100'' seeded) = seeded \<and>
   daily_requests_used (fst (check_limits 50 ''+15550100'' seeded)) = 0 \<and>
   daily_requests_remaining (fst (check_limits 50 ''+15550100'' seeded)) = 100 \<and>
   reset_in_seconds (fst (check_limits 50 ''+15550100'' seeded)) = 86400"
proof -
  have h: "redis_get (redis seeded) 50 (rate_key ''+15550100'') = None"
    by (simp add: redis_get_def seeded_def)
  from check_limits_read_only [of 50 "''+15550100''" seeded] h
  show ?thesis by simp
qed

section \<open>Overlapping requests\<close>

lemma check_limit_two_trips:
  "check_limit now later phone r =
     check_limit_execute later phone (check_limit_get now phone r) r"
  by (simp add: check_limit_def check_limit_get_def check_limit_execute_def split: option.splits)

text \<open>
  Each Redis command of \<open>check_limit\<close> is atomic, the call is not: the GET is sent on
  the client, outside the pipeline, and the pipeline holds the one write. Two calls
  whose GETs both come before both writes are decided on the same reading: with no live
  entry both are Allowed and both write the counter 1 and the expiry; with a counter
  below 100 that is live throughout both are Allowed and the counter grows by 2; with a
  live counter of 100 or more both are Limited and nothing is written.
\<close>

lemma check_limit_overlapped_outcome:
  "(redis_get r now (rate_key phone) = None \<longrightarrow>
      check_limit_overlapped now later phone r =
        (False, False,
         r(rate_key phone \<mapsto> \<lparr>count = 1, expire_at = Some (later + RATE_LIMIT_DURATION)\<rparr>)))
   \<and> (\<forall>e. r (rate_key phone) = Some e \<and> live now e \<and> live later e \<and> count e < 100 \<longrightarrow>
         check_limit_overlapped now later phone r =
           (False, False, r(rate_key phone \<mapsto> e\<lparr>count := count e + 2\<rparr>)))
   \<and> (\<forall>e. r (rate_key phone) = Some e \<and> live now e \<and> 100 \<le> count e \<longrightarrow>
         check_limit_overlapped now later phone r = (True, True, r))"
  by (auto simp: check_limit_overlapped_def check_limit_get_def check_limit_execute_def
        redis_get_def redis_setex_def redis_incr_def live_def
        MAX_DAILY_REQUESTS_def RATE_LIMIT_DURATION_def Let_def
        split: option.splits)

text \<open>
  Claim C9. Two calls of \<open>check_limit\<close> for one identity whose GETs are both answered
  before either pipeline runs are not as if serialized. At a counter of 99 both are
  Allowed and the counter ends at 101, above the limit, where two calls one after the
  other give Allowed and Limited and end at 100. With no entry both are Allowed and the
  counter ends at 1, not 2: one increment is lost and the window is set twice. And two
  first images of one identity, handled by two threads that both query before either
  commits, leave the identity with two active Sessions.
\<close>

theorem check_limit_not_atomic:
  "check_limit_overlapped 10 10 ''+15550100'' at99 =
     (False, False, [rate_key ''+15550100'' \<mapsto> \<lparr>count = 101, expire_at = Some 86400\<rparr>]) \<and>
   check_limit_calls [(10, 10), (10, 10)] ''+15550100'' at99 =
     ([False, True], [rate_key ''+15550100'' \<mapsto> \<lparr>count = 100, expire_at = Some 86400\<rparr>]) \<and>
   redis_get (snd (snd (check_limit_overlapped 10 10 ''+15550100'' at99))) 10
     (rate_key ''+15550100'') = Some 101 \<and>
   check_limit_overlapped 10 11 ''+15550100'' Map.empty =
     (False, False, [rate_key ''+15550100'' \<mapsto> \<lparr>count = 1, expire_at = Some 86411\<rparr>]) \<and>
   check_limit_calls [(10, 11), (10, 11)] ''+15550100'' Map.empty =
     ([False, False], [rate_key ''+15550100'' \<mapsto> \<lparr>count = 2, expire_at = Some 86411\<rparr>]) \<and>
   length (active_sessions_of (db seeded) ''+15550100'') = 0 \<and>
   length (active_sessions_of
     (db (snd (snd (webhook_overlapped (Some ''https://x'') (outcome PredictRaises)
          (outcome PredictRaises) 10
          \<lparr>form_From = Some ''+15550100'', form_MediaUrl0 = Some (media_ref ''A'')\<rparr>
          \<lparr>form_From = Some ''+15550100'', form_MediaUrl0 = Some (media_ref ''A'')\<rparr> seeded))))
     ''+15550100'') = 2"
  by (simp add: check_limit_overlapped_def check_limit_get_def check_limit_execute_def
        check_limit_def redis_get_def redis_setex_def redis_incr_def live_def at99_def
        MAX_DAILY_REQUESTS_def RATE_LIMIT_DURATION_def Let_def
        webhook_overlapped_def webhook_finish_def webhook_read_def webhook_act_def
        start_session_def outcome_def seeded_def alice_def first_user_def
        first_active_session_def insert_session_def next_id_def truthy_def media_ref_def
        active_sessions_of_def image_iff)

section \<open>The one result file\<close>










section \<open>A failed try-on\<close>

lemma webhook_awaiting:
  assumes "truthy (form_MediaUrl0 frm)" and "\<not> wh_query_fault out"
    and "first_user (db s) (form_From frm) = Some usr"
    and "first_active_session (db s) (uid usr) = Some a"
    and "\<not> truthy (garment_image a)"
    and "process_virtual_tryon N out (person_image a) (form_MediaUrl0 frm) (files s) = (res, fs)"
  shows "webhook N out now frm s =
     (if truthy res then
        if wh_commit_fault out then (InternalServerError DatabaseError, s\<lparr>files := fs\<rparr>)
        else if send_fault out then
          (InternalServerError TwilioError,
           s\<lparr>files := fs,
              db := update_session
                      (a\<lparr>garment_image := form_MediaUrl0 frm, result_image := res,
                         completed_at := Some now\<rparr>) (db s)\<rparr>)
        else
          (Response ''Here is your virtual try-on result!'' 200,
           s\<lparr>files := fs,
              db := update_session
                      (a\<lparr>garment_image := form_MediaUrl0 frm, result_image := res,
                         completed_at := Some now\<rparr>) (db s),
              outbox := outbox s @ [(form_From frm, res)]\<rparr>)
      else (Response ''Sorry, something went wrong with the try-on process.'' 200,
            s\<lparr>files := fs\<rparr>))"
  using assms by (simp add: webhook_def webhook_finish_def webhook_read_def webhook_act_def Let_def)

lemma first_active_cong:
  "sessions d' = sessions d \<Longrightarrow> first_active_session d' u = first_active_session d u"
  by (simp add: first_active_session_def)

text \<open>
  When the dispatcher fails on the second image of a Session, the webhook answers with
  the failure message and commits nothing: the stored Session keeps its person image,
  with garment image, result image and completion time null. The next image event of
  that user, on any state with the same Sessions, creates no Session either: it runs the
  dispatcher again on the person image of that same Session and the new media reference,
  and when that succeeds (and the commit does) it completes that Session with the new
  reference as its garment image.
\<close>

lemma dispatcher_failure_retries:
  assumes "truthy (form_MediaUrl0 frm)" and "\<not> wh_query_fault out"
    and "first_user (db s) (form_From frm) = Some usr"
    and "first_active_session (db s) (uid usr) = Some a"
    and "\<not> truthy (garment_image a)"
    and "fst (process_virtual_tryon N out (person_image a) (form_MediaUrl0 frm) (files s)) = None"
  shows "fst (webhook N out now frm s) =
           Response ''Sorry, something went wrong with the try-on process.'' 200 \<and>
         db (snd (webhook N out now frm s)) = db s \<and>
         (\<forall>s2 usr2 out2 now2 frm2.
            sessions (db s2) = sessions (db s) \<and>
            first_user (db s2) (form_From frm2) = Some usr2 \<and> uid usr2 = uid usr \<and>
            truthy (form_MediaUrl0 frm2) \<and> \<not> wh_query_fault out2 \<longrightarrow>
              length (sessions (db (snd (webhook N out2 now2 frm2 s2)))) = length (sessions (db s)) \<and>
              (fst (process_virtual_tryon N out2 (person_image a) (form_MediaUrl0 frm2) (files s2))
                 \<noteq> None \<and> \<not> wh_commit_fault out2 \<longrightarrow>
               db (snd (webhook N out2 now2 frm2 s2)) =
                 update_session
                   (a\<lparr>garment_image := form_MediaUrl0 frm2,
                      result_image := Some (result_locator N),
                      completed_at := Some now2\<rparr>) (db s2)))"
proof (intro conjI allI impI)
  obtain res fs where pv:
    "process_virtual_tryon N out (person_image a) (form_MediaUrl0 frm) (files s) = (res, fs)"
    by (cases "process_virtual_tryon N out (person_image a) (form_MediaUrl0 frm) (files s)")
  with assms(6) have none: "res = None" by simp
  note w = webhook_awaiting[OF assms(1-5) pv, of now]
  show "fst (webhook N out now frm s) =
           Response ''Sorry, something went wrong with the try-on process.'' 200"
    by (simp add: w none truthy_def)
  show "db (snd (webhook N out now frm s)) = db s"
    by (simp add: w none truthy_def)
next
  fix s2 :: app_state and usr2 :: user and out2 :: outcomes and now2 :: time and frm2 :: form
  assume h: "sessions (db s2) = sessions (db s) \<and>
            first_user (db s2) (form_From frm2) = Some usr2 \<and> uid usr2 = uid usr \<and>
            truthy (form_MediaUrl0 frm2) \<and> \<not> wh_query_fault out2"
  then have act: "first_active_session (db s2) (uid usr2) = Some a"
    using assms(4) first_active_cong[of "db s2" "db s" "uid usr"] by simp
  obtain res fs where pv:
    "process_virtual_tryon N out2 (person_image a) (form_MediaUrl0 frm2) (files s2) = (res, fs)"
    by (cases "process_virtual_tryon N out2 (person_image a) (form_MediaUrl0 frm2) (files s2)")
  from h have m: "truthy (form_MediaUrl0 frm2)" and q: "\<not> wh_query_fault out2"
    and u: "first_user (db s2) (form_From frm2) = Some usr2" by simp_all
  note w = webhook_awaiting[OF m q u act assms(5) pv, of now2]
  from tryon_result[OF pv] have r: "res = None \<or> res = Some (result_locator N)" by auto
  have len: "length (sessions (update_session x (db s2))) = length (sessions (db s))" for x
    using h by (simp add: update_session_def)
  show "length (sessions (db (snd (webhook N out2 now2 frm2 s2)))) = length (sessions (db s))"
    using h len by (simp add: w)
  show "db (snd (webhook N out2 now2 frm2 s2)) =
          update_session
            (a\<lparr>garment_image := form_MediaUrl0 frm2,
               result_image := Some (result_locator N),
               completed_at := Some now2\<rparr>) (db s2)"
    if "fst (process_virtual_tryon N out2 (person_image a) (form_MediaUrl0 frm2) (files s2))
          \<noteq> None \<and> \<not> wh_commit_fault out2"
  proof -
    from that pv r have rs: "res = Some (result_locator N)" by auto
    then have "truthy res" by (simp add: truthy_locator)
    with that rs show ?thesis by (simp add: w)
  qed
qed

text \<open>
  Claim C3. The view function assigns the garment image to the Session object before it
  calls the dispatcher (line 233), and its last branch (lines 250 to 254) starts a new
  Session when the active one has a garment image; but the failure branch returns
  without a commit, so the assignment never reaches the database. For a user whose
  Session waits for the garment image, an image B on which the dispatcher fails is
  answered with the failure message and leaves the stored Session with its garment image
  null, not B; a following image C, on which the dispatcher succeeds, creates no new
  Session: it is taken as the garment image of the same Session, which it completes.
\<close>

theorem dispatcher_failure_not_recorded:
  "fst (handle (Some ''https://x'')
          (message 20 ''+15550100'' (Some (media_ref ''B'')) PredictRaises) awaiting) =
     Response ''Sorry, something went wrong with the try-on process.'' 200 \<and>
   sessions (db (snd (handle (Some ''https://x'')
                        (message 20 ''+15550100'' (Some (media_ref ''B'')) PredictRaises) awaiting))) =
     [\<lparr>sid = 1, user_id = 1, person_image = Some (media_ref ''A''), garment_image = None,
       result_image = None, session_created_at = 10, completed_at = None\<rparr>] \<and>
   fst (handle (Some ''https://x'')
          (message 30 ''+15550100'' (Some (media_ref ''C'')) (PredictReturns [Readable ''png'']))
          (snd (handle (Some ''https://x'')
                  (message 20 ''+15550100'' (Some (media_ref ''B'')) PredictRaises) awaiting))) =
     Response ''Here is your virtual try-on result!'' 200 \<and>
   sessions (db (run (Some ''https://x'')
                   [message 20 ''+15550100'' (Some (media_ref ''B'')) PredictRaises,
                    message 30 ''+15550100'' (Some (media_ref ''C''))
                      (PredictReturns [Readable ''png''])]
                   awaiting)) =
     [\<lparr>sid = 1, user_id = 1, person_image = Some (media_ref ''A''),
       garment_image = Some (media_ref ''C''),
       result_image = Some ''https://x/static/result.png'',
       session_created_at = 10, completed_at = Some 30\<rparr>]"
  by (simp add: ev_defs)

section \<open>A first message\<close>

text \<open>
  Claim C5 at a fresh identity. \<open>rate_limit\<close> finds no User row, constructs the
  object and adds 1 to its \<open>request_count\<close>, which is None until an INSERT has applied
  the column default: the request ends in a TypeError after the quota entry was created
  and before the webhook body. No User and no Session is stored, for image A and again
  for image B.
\<close>

theorem fresh_identity_type_error:
  "handle (Some ''https://x'') (message 10 ''+15550100'' (Some ''A'') PredictRaises) fresh =
     (InternalServerError TypeError,
      fresh\<lparr>redis := [rate_key ''+15550100'' \<mapsto> \<lparr>count = 1, expire_at = Some 86410\<rparr>]\<rparr>) \<and>
   db (run (Some ''https://x'')
         [message 10 ''+15550100'' (Some ''A'') PredictRaises,
          message 20 ''+15550100'' (Some ''B'') (PredictReturns [Readable ''png''])] fresh) =
     \<lparr>users = [], sessions = []\<rparr>"
  by (simp add: ev_defs)

text \<open>For an identity that has its User row, the two images give the flow of the claim:
  an active Session with the person image A and a request for the garment, then that
  Session completed with garment image B.\<close>

lemma known_identity_flow:
  "handle (Some ''https://x'') (message 10 ''+15550100'' (Some (media_ref ''A'')) PredictRaises) seeded =
     (Response ''Great! Now please send the image of the garment you want to try on.'' 200,
      awaiting\<lparr>redis := [rate_key ''+15550100'' \<mapsto> \<lparr>count = 1, expire_at = Some 86410\<rparr>]\<rparr>) \<and>
   sessions (db (run (Some ''https://x'')
         [message 10 ''+15550100'' (Some (media_ref ''A'')) PredictRaises,
          message 20 ''+15550100'' (Some (media_ref ''B'')) (PredictReturns [Readable ''png''])]
         seeded)) =
     [\<lparr>sid = 1, user_id = 1, person_image = Some (media_ref ''A''),
       garment_image = Some (media_ref ''B''),
       result_image = Some ''https://x/static/result.png'',
       session_created_at = 10, completed_at = Some 20\<rparr>]"
  by (simp add: ev_defs)

section \<open>A message without an image\<close>

lemma webhook_no_media:
  "\<not> truthy (form_MediaUrl0 frm) \<Longrightarrow>
   webhook N out now frm s =
     (Response ''We didn't receive an image. Please try sending your image again.'' 200, s)"
  by (simp add: webhook_def Let_def)

lemma check_limit_allowed_get:
  "check_limit now (now + d) p r = (False, r') \<Longrightarrow>
   redis_get r' (now + d) (rate_key p) =
     Some (case redis_get r (now + d) (rate_key p) of None \<Rightarrow> 1 | Some c \<Rightarrow> c + 1)"
  by (auto simp: check_limit_def redis_get_def redis_setex_def redis_incr_def live_def
        RATE_LIMIT_DURATION_def split: option.splits if_splits)

lemma flush_user_loaded:
  "flush_user now ((load_user row)\<lparr>obj_last_request := a, obj_request_count := Some c\<rparr>) d =
     d\<lparr>users := map (\<lambda>u. if uid u = uid row
                          then u\<lparr>last_request := a, request_count := c\<rparr> else u) (users d)\<rparr>"
  by (simp add: flush_user_def load_user_def)

text \<open>
  For every event with an identity and no media reference (Redis answering),
  the quota store after the request is exactly what \<open>check_limit\<close> left: the check and
  its increment come first and nothing rolls them back, and no Session row changes. When
  the limiter allows the request and the User row exists, the User's last request and
  lifetime counter are updated with the commit of \<open>rate_limit\<close> (dropped only if that
  commit fails), the counter of the quota entry, read when the pipeline ran, has grown
  by one (or is 1 for a new entry), and only then the webhook body answers that no image
  was received.
\<close>

lemma quota_consumed_before_validation:
  assumes "form_From (ev_form ev) = Some phone" and "phone \<noteq> []"
    and "\<not> truthy (form_MediaUrl0 (ev_form ev))" and "\<not> redis_fault (ev_outcomes ev)"
  shows "redis (snd (handle N ev s)) = snd (check_limit (ev_time ev) (ev_time ev + pipeline_delay (ev_outcomes ev)) phone (redis s)) \<and>
         sessions (db (snd (handle N ev s))) = sessions (db s) \<and>
         (\<forall>row. \<not> fst (check_limit (ev_time ev) (ev_time ev + pipeline_delay (ev_outcomes ev)) phone (redis s)) \<and>
                \<not> rl_query_fault (ev_outcomes ev) \<and>
                first_user (db s) (Some phone) = Some row \<longrightarrow>
            fst (handle N ev s) =
              Response ''We didn't receive an image. Please try sending your image again.'' 200 \<and>
            redis_get (redis (snd (handle N ev s)))
                (ev_time ev + pipeline_delay (ev_outcomes ev)) (rate_key phone) =
              Some (case redis_get (redis s) (ev_time ev + pipeline_delay (ev_outcomes ev))
                           (rate_key phone) of
                      None \<Rightarrow> 1 | Some c \<Rightarrow> c + 1) \<and>
            users (db (snd (handle N ev s))) =
              (if rl_commit_fault (ev_outcomes ev) then users (db s)
               else map (\<lambda>u. if uid u = uid row
                              then u\<lparr>last_request := Some (ev_time ev),
                                     request_count := request_count row + 1\<rparr>
                              else u) (users (db s))))"
proof -
  let ?out = "ev_outcomes ev" and ?now = "ev_time ev" and ?frm = "ev_form ev"
  let ?R = "rate_limit (webhook N) ?out ?now ?frm s"
  have h: "handle N ev s = ?R"
    by (simp add: handle_def webhook_route_def)
  obtain limited r where cl: "check_limit ?now (?now + pipeline_delay ?out) phone (redis s) = (limited, r)"
    by (cases "check_limit ?now (?now + pipeline_delay ?out) phone (redis s)")
  show ?thesis
  proof (cases "limited \<or> rl_query_fault ?out \<or> first_user (db s) (Some phone) = None")
    case True
    note rj = rate_limit_rejected[OF assms(1) assms(2) assms(4) cl True, where f = "webhook N"]
    have e: "snd (handle N ev s) = s\<lparr>redis := r\<rparr>"
      by (simp only: h rj snd_conv)
    show ?thesis
      unfolding e using True cl by auto
  next
    case False
    then obtain row where row: "first_user (db s) (Some phone) = Some row" by auto
    from False have nl: "\<not> limited" and nq: "\<not> rl_query_fault ?out" by simp_all
    from cl nl have cl': "check_limit ?now (?now + pipeline_delay ?out) phone (redis s) = (False, r)" by simp
    let ?s2 = "s\<lparr>redis := r,
          db := (if rl_commit_fault ?out then db s
                 else flush_user ?now
                        ((load_user row)\<lparr>obj_last_request := Some ?now,
                           obj_request_count := Some (request_count row + 1)\<rparr>) (db s))\<rparr>"
    note ca = rate_limit_called[OF assms(1) assms(2) assms(4) cl' nq row, where f = "webhook N"]
    have e: "handle N ev s =
        (Response ''We didn't receive an image. Please try sending your image again.'' 200, ?s2)"
      by (simp only: h ca webhook_no_media[OF assms(3)])
    have g: "redis_get r (?now + pipeline_delay ?out) (rate_key phone) =
        Some (case redis_get (redis s) (?now + pipeline_delay ?out) (rate_key phone) of
                None \<Rightarrow> 1 | Some c \<Rightarrow> c + 1)"
      using cl' by (rule check_limit_allowed_get)
    show ?thesis
      unfolding e using cl' row g by (simp add: flush_user_loaded)
  qed
qed

text \<open>
  Claim C6. For an identity that has no User row yet, the event without a media
  reference never reaches the validation: the check of \<open>rate_limit\<close> consumes the quota
  slot, then the increment of the unset \<open>request_count\<close> of the new User object raises
  a TypeError. The request ends as an exception, with no User row stored and no update
  of a last request or lifetime counter, and the next such event ends the same way with
  the second slot consumed. Only for an identity whose User row exists is the event
  answered with the missing-image message, the slot consumed and the User row updated.
\<close>

theorem media_less_fresh_identity:
  "handle (Some ''https://x'') (message 10 ''+15550100'' None PredictRaises) fresh =
     (InternalServerError TypeError,
      fresh\<lparr>redis := [rate_key ''+15550100'' \<mapsto> \<lparr>count = 1, expire_at = Some 86410\<rparr>]\<rparr>) \<and>
   handle (Some ''https://x'') (message 20 ''+15550100'' None PredictRaises)
       (snd (handle (Some ''https://x'') (message 10 ''+15550100'' None PredictRaises) fresh)) =
     (InternalServerError TypeError,
      fresh\<lparr>redis := [rate_key ''+15550100'' \<mapsto> \<lparr>count = 2, expire_at = Some 86410\<rparr>]\<rparr>) \<and>
   handle (Some ''https://x'') (message 10 ''+15550100'' None PredictRaises) seeded =
     (Response ''We didn't receive an image. Please try sending your image again.'' 200,
      seeded\<lparr>redis := [rate_key ''+15550100'' \<mapsto> \<lparr>count = 1, expire_at = Some 86410\<rparr>],
             db := \<lparr>users = [alice\<lparr>last_request := Some 10, request_count := 1\<rparr>],
                    sessions = []\<rparr>\<rparr>)"
  by (simp add: ev_defs)

section \<open>Faults of the stores\<close>

lemma find_map_pres:
  "(\<And>x. P (g x) = P x) \<Longrightarrow> find P (map g xs) = map_option g (find P xs)"
  by (induction xs) simp_all

lemma first_user_flushed:
  assumes "first_user d p = Some row"
  shows "first_user
           (d\<lparr>users := map (\<lambda>u. if uid u = uid row
                                  then u\<lparr>last_request := a, request_count := c\<rparr> else u) (users d)\<rparr>) p =
         Some (row\<lparr>last_request := a, request_count := c\<rparr>)"
proof -
  let ?g = "\<lambda>u. if uid u = uid row then u\<lparr>last_request := a, request_count := c\<rparr> else u"
  have "find (\<lambda>u. Some (phone_number u) = p) (map ?g (users d)) =
      map_option ?g (find (\<lambda>u. Some (phone_number u) = p) (users d))"
    by (rule find_map_pres) simp
  then show ?thesis
    using assms by (simp add: first_user_def)
qed

lemma webhook_query_fault:
  "truthy (form_MediaUrl0 frm) \<Longrightarrow> wh_query_fault out \<Longrightarrow>
   webhook N out now frm s = (InternalServerError DatabaseError, s)"
  by (simp add: webhook_def)

lemma webhook_commit_fault:
  assumes "truthy (form_MediaUrl0 frm)" and "\<not> wh_query_fault out" and "wh_commit_fault out"
    and "first_user (db s) (form_From frm) = Some usr"
  shows "webhook N out now frm s =
     (case first_active_session (db s) (uid usr) of
        None \<Rightarrow> (InternalServerError DatabaseError, s)
      | Some a \<Rightarrow>
          if truthy (garment_image a) then (InternalServerError DatabaseError, s)
          else (case process_virtual_tryon N out (person_image a) (form_MediaUrl0 frm) (files s) of
                  (res, fs) \<Rightarrow>
                    (if truthy res then InternalServerError DatabaseError
                     else Response ''Sorry, something went wrong with the try-on process.'' 200,
                     s\<lparr>files := fs\<rparr>)))"
  using assms
  by (simp add: webhook_def webhook_finish_def webhook_read_def webhook_act_def start_session_def
        Let_def split: option.splits prod.splits)

lemma webhook_commit_fault_sessions:
  assumes "wh_commit_fault out"
  shows "db (snd (webhook N out now frm s)) = db s"
proof -
  obtain resp s' where w: "webhook N out now frm s = (resp, s')"
    by (cases "webhook N out now frm s")
  have "db s' = db s"
    using w assms
    by (auto simp: webhook_def webhook_finish_def webhook_read_def webhook_act_def
          start_session_def Let_def split: option.splits prod.splits if_splits sum.splits)
  then show ?thesis by (simp add: w)
qed

text \<open>
  Claim C7, as the code has it for the commit of \<open>rate_limit\<close>: when that commit
  raises, the exception is caught and printed, and the event is processed as if nothing
  had happened. Here the first image of a known user is answered with the request for
  the garment image, the Session is created and the quota is consumed, while the update
  of the User row is lost.
\<close>

theorem store_fault_not_propagated:
  "handle (Some ''https://x'')
     \<lparr>ev_outcomes = (outcome PredictRaises)\<lparr>rl_commit_fault := True\<rparr>, ev_time = 10,
      ev_form = \<lparr>form_From = Some ''+15550100'', form_MediaUrl0 = Some ''A''\<rparr>\<rparr> seeded =
   (Response ''Great! Now please send the image of the garment you want to try on.'' 200,
    seeded\<lparr>redis := [rate_key ''+15550100'' \<mapsto> \<lparr>count = 1, expire_at = Some 86410\<rparr>],
           db := \<lparr>users = [alice],
                  sessions =
                    [\<lparr>sid = 1, user_id = 1, person_image = Some ''A'', garment_image = None,
                      result_image = None, session_created_at = 10, completed_at = None\<rparr>]\<rparr>\<rparr>)"
  by (simp add: ev_defs)

text \<open>
  Claim C7, for the whole request of an event with an identity. A Redis fault in
  \<open>check_limit\<close> ends the request as an exception with no state changed. A fault of
  the User query in \<open>rate_limit\<close> ends it as an exception with no database change, the
  quota increment made before staying. For an allowed request of an identity with a
  User row, the request is the webhook body run on the state \<open>s2\<close> that \<open>rate_limit\<close>
  leaves: the quota consumed and the User update committed, or, when the commit of
  \<open>rate_limit\<close> raises, dropped by the rollback, the body running all the same on the
  unchanged database. A fault of the query of the webhook body ends the request as an
  exception in that state \<open>s2\<close>: the quota increment and the committed User update stay.
  A fault of the commit of the webhook body ends the request as an exception wherever
  the body commits (a new Session, or the completion of the waiting one, whose result
  file is already written), again with no Session changed and with the quota increment
  and the User update in place; the one path without a commit, the failed try-on, is
  answered as without the fault.
\<close>

theorem store_fault_handling:
  assumes "form_From (ev_form ev) = Some phone" and "phone \<noteq> []"
  shows
   "let out = ev_outcomes ev; now = ev_time ev; frm = ev_form ev;
        limited = fst (check_limit now (now + pipeline_delay out) phone (redis s));
        r = snd (check_limit now (now + pipeline_delay out) phone (redis s))
    in (redis_fault out \<longrightarrow> handle N ev s = (InternalServerError RedisError, s)) \<and>
       (\<not> redis_fault out \<and> \<not> limited \<and> rl_query_fault out \<longrightarrow>
          handle N ev s = (InternalServerError DatabaseError, s\<lparr>redis := r\<rparr>)) \<and>
       (\<forall>row. \<not> redis_fault out \<and> \<not> limited \<and> \<not> rl_query_fault out \<and>
              first_user (db s) (Some phone) = Some row \<longrightarrow>
          (let s2 = s\<lparr>redis := r,
                      db := (if rl_commit_fault out then db s
                             else (db s)\<lparr>users :=
                                    map (\<lambda>u. if uid u = uid row
                                              then u\<lparr>last_request := Some now,
                                                     request_count := request_count row + 1\<rparr>
                                              else u) (users (db s))\<rparr>)\<rparr>
           in handle N ev s = webhook N out now frm s2 \<and>
              (rl_commit_fault out \<longrightarrow>
                 handle N ev s = webhook N out now frm (s\<lparr>redis := r\<rparr>)) \<and>
              (truthy (form_MediaUrl0 frm) \<and> wh_query_fault out \<longrightarrow>
                 handle N ev s = (InternalServerError DatabaseError, s2)) \<and>
              (truthy (form_MediaUrl0 frm) \<and> \<not> wh_query_fault out \<and> wh_commit_fault out \<longrightarrow>
                 sessions (db (snd (handle N ev s))) = sessions (db s) \<and>
                 handle N ev s =
                   (case first_active_session (db s) (uid row) of
                      None \<Rightarrow> (InternalServerError DatabaseError, s2)
                    | Some a \<Rightarrow>
                        if truthy (garment_image a) then (InternalServerError DatabaseError, s2)
                        else (case process_virtual_tryon N out (person_image a)
                                     (form_MediaUrl0 frm) (files s) of
                                (res, fs) \<Rightarrow>
                                  (if truthy res then InternalServerError DatabaseError
                                   else Response
                                          ''Sorry, something went wrong with the try-on process.''
                                          200,
                                   s2\<lparr>files := fs\<rparr>))))))"
proof -
  let ?out = "ev_outcomes ev" and ?now = "ev_time ev" and ?frm = "ev_form ev"
  let ?later = "ev_time ev + pipeline_delay (ev_outcomes ev)"
  let ?R = "rate_limit (webhook N) ?out ?now ?frm s"
  have h: "handle N ev s = ?R"
    by (simp add: handle_def webhook_route_def)
  obtain limited r where cl: "check_limit ?now ?later phone (redis s) = (limited, r)"
    by (cases "check_limit ?now ?later phone (redis s)")
  let ?d2 = "\<lambda>row. if rl_commit_fault ?out then db s
       else (db s)\<lparr>users := map (\<lambda>u. if uid u = uid row
                                      then u\<lparr>last_request := Some ?now,
                                             request_count := request_count row + 1\<rparr>
                                      else u) (users (db s))\<rparr>"
  let ?s2 = "\<lambda>row. s\<lparr>redis := r, db := ?d2 row\<rparr>"
  have a: "?R = (InternalServerError RedisError, s)" if "redis_fault ?out"
    using that assms by (simp add: rate_limit_def)
  have b: "?R = (InternalServerError DatabaseError, s\<lparr>redis := r\<rparr>)"
    if "\<not> redis_fault ?out" "\<not> limited" "rl_query_fault ?out"
  proof -
    from that have d: "limited \<or> rl_query_fault ?out \<or> first_user (db s) (Some phone) = None"
      by simp
    note rj = rate_limit_rejected[OF assms(1) assms(2) that(1) cl d, where f = "webhook N"]
    show ?thesis using that by (simp only: rj if_False if_True)
  qed
  have c: "?R = webhook N ?out ?now ?frm (?s2 row)"
    if "\<not> redis_fault ?out" "\<not> limited" "\<not> rl_query_fault ?out"
      "first_user (db s) (Some phone) = Some row" for row
  proof -
    from cl that(2) have cl': "check_limit ?now ?later phone (redis s) = (False, r)" by simp
    note ca = rate_limit_called[OF assms(1) assms(2) that(1) cl' that(3) that(4),
        where f = "webhook N"]
    show ?thesis by (simp only: ca flush_user_loaded)
  qed
  have fu: "\<exists>usr. first_user (db (?s2 row)) (form_From ?frm) = Some usr \<and> uid usr = uid row"
    if "first_user (db s) (Some phone) = Some row" for row
  proof (cases "rl_commit_fault ?out")
    case True
    then show ?thesis using that assms(1) by simp
  next
    case False
    have "first_user
           ((db s)\<lparr>users := map (\<lambda>u. if uid u = uid row
                                  then u\<lparr>last_request := Some ?now,
                                         request_count := request_count row + 1\<rparr>
                                  else u) (users (db s))\<rparr>) (Some phone) =
         Some (row\<lparr>last_request := Some ?now, request_count := request_count row + 1\<rparr>)"
      using that by (rule first_user_flushed)
    then show ?thesis using False assms(1) by simp
  qed
  have ss: "sessions (db (?s2 row)) = sessions (db s)" for row
    by simp
  have d: "webhook N ?out ?now ?frm (?s2 row) = (InternalServerError DatabaseError, ?s2 row)"
    if "truthy (form_MediaUrl0 ?frm)" "wh_query_fault ?out" for row
    using that by (rule webhook_query_fault)
  have e: "webhook N ?out ?now ?frm (?s2 row) =
      (case first_active_session (db s) (uid row) of
         None \<Rightarrow> (InternalServerError DatabaseError, ?s2 row)
       | Some a \<Rightarrow>
           if truthy (garment_image a) then (InternalServerError DatabaseError, ?s2 row)
           else (case process_virtual_tryon N ?out (person_image a) (form_MediaUrl0 ?frm) (files s) of
                   (res, fs) \<Rightarrow>
                     (if truthy res then InternalServerError DatabaseError
                      else Response ''Sorry, something went wrong with the try-on process.'' 200,
                      (?s2 row)\<lparr>files := fs\<rparr>)))"
    if "truthy (form_MediaUrl0 ?frm)" "\<not> wh_query_fault ?out" "wh_commit_fault ?out"
      "first_user (db s) (Some phone) = Some row" for row
  proof -
    from fu[OF that(4)] obtain usr where
      u: "first_user (db (?s2 row)) (form_From ?frm) = Some usr" and k: "uid usr = uid row"
      by blast
    have fa: "first_active_session (db (?s2 row)) (uid usr) = first_active_session (db s) (uid row)"
      unfolding k by (rule first_active_cong) (rule ss)
    have fl: "files (?s2 row) = files s" by simp
    note w = webhook_commit_fault[OF that(1) that(2) that(3) u, of N ?now]
    show ?thesis by (simp only: w fa fl)
  qed
  have e2: "sessions (db (snd (webhook N ?out ?now ?frm (?s2 row)))) = sessions (db s)"
    if "wh_commit_fault ?out" for row
  proof -
    have "db (snd (webhook N ?out ?now ?frm (?s2 row))) = db (?s2 row)"
      using that by (rule webhook_commit_fault_sessions)
    then show ?thesis by (simp only: ss)
  qed
  have f: "fst (check_limit ?now ?later phone (redis s)) = limited"
    and g: "snd (check_limit ?now ?later phone (redis s)) = r"
    by (simp_all add: cl)
  show ?thesis
    unfolding Let_def h f g
  proof (intro conjI allI impI)
    assume "redis_fault ?out"
    then show "?R = (InternalServerError RedisError, s)" by (rule a)
  next
    assume x: "\<not> redis_fault ?out \<and> \<not> limited \<and> rl_query_fault ?out"
    show "?R = (InternalServerError DatabaseError, s\<lparr>redis := r\<rparr>)"
      by (rule b) (use x in simp_all)
  next
    fix row
    assume x: "\<not> redis_fault ?out \<and> \<not> limited \<and> \<not> rl_query_fault ?out \<and>
       first_user (db s) (Some phone) = Some row"
    show "?R = webhook N ?out ?now ?frm (?s2 row)"
      by (rule c) (use x in simp_all)
  next
    fix row
    assume x: "\<not> redis_fault ?out \<and> \<not> limited \<and> \<not> rl_query_fault ?out \<and>
       first_user (db s) (Some phone) = Some row"
    assume y: "rl_commit_fault ?out"
    have "?R = webhook N ?out ?now ?frm (?s2 row)"
      by (rule c) (use x in simp_all)
    moreover have "?s2 row = s\<lparr>redis := r\<rparr>"
      using y by simp
    ultimately show "?R = webhook N ?out ?now ?frm (s\<lparr>redis := r\<rparr>)"
      by (simp only:)
  next
    fix row
    assume x: "\<not> redis_fault ?out \<and> \<not> limited \<and> \<not> rl_query_fault ?out \<and>
       first_user (db s) (Some phone) = Some row"
    assume y: "truthy (form_MediaUrl0 ?frm) \<and> wh_query_fault ?out"
    have "?R = webhook N ?out ?now ?frm (?s2 row)"
      by (rule c) (use x in simp_all)
    moreover have "webhook N ?out ?now ?frm (?s2 row) = (InternalServerError DatabaseError, ?s2 row)"
      by (rule d) (use y in simp_all)
    ultimately show "?R = (InternalServerError DatabaseError, ?s2 row)"
      by (simp only:)
  next
    fix row
    assume x: "\<not> redis_fault ?out \<and> \<not> limited \<and> \<not> rl_query_fault ?out \<and>
       first_user (db s) (Some phone) = Some row"
    assume y: "truthy (form_MediaUrl0 ?frm) \<and> \<not> wh_query_fault ?out \<and> wh_commit_fault ?out"
    have r: "?R = webhook N ?out ?now ?frm (?s2 row)"
      by (rule c) (use x in simp_all)
    have "sessions (db (snd (webhook N ?out ?now ?frm (?s2 row)))) = sessions (db s)"
      by (rule e2) (use y in simp)
    then show "sessions (db (snd ?R)) = sessions (db s)"
      by (simp only: r)
    have "webhook N ?out ?now ?frm (?s2 row) =
      (case first_active_session (db s) (uid row) of
         None \<Rightarrow> (InternalServerError DatabaseError, ?s2 row)
       | Some a \<Rightarrow>
           if truthy (garment_image a) then (InternalServerError DatabaseError, ?s2 row)
           else (case process_virtual_tryon N ?out (person_image a) (form_MediaUrl0 ?frm) (files s) of
                   (res, fs) \<Rightarrow>
                     (if truthy res then InternalServerError DatabaseError
                      else Response ''Sorry, something went wrong with the try-on process.'' 200,
                      (?s2 row)\<lparr>files := fs\<rparr>)))"
      by (rule e) (use x y in simp_all)
    then show "?R =
      (case first_active_session (db s) (uid row) of
         None \<Rightarrow> (InternalServerError DatabaseError, ?s2 row)
       | Some a \<Rightarrow>
           if truthy (garment_image a) then (InternalServerError DatabaseError, ?s2 row)
           else (case process_virtual_tryon N ?out (person_image a) (form_MediaUrl0 ?frm) (files s) of
                   (res, fs) \<Rightarrow>
                     (if truthy res then InternalServerError DatabaseError
                      else Response ''Sorry, something went wrong with the try-on process.'' 200,
                      (?s2 row)\<lparr>files := fs\<rparr>)))"
      by (simp only: r)
  qed
qed

theorem store_fault_handling_witness:
  "handle (Some ''https://x'')
     \<lparr>ev_outcomes = (outcome PredictRaises)\<lparr>redis_fault := True\<rparr>, ev_time = 10,
      ev_form = \<lparr>form_From = Some ''+15550100'', form_MediaUrl0 = Some (media_ref ''A'')\<rparr>\<rparr> seeded =
     (InternalServerError RedisError, seeded) \<and>
   handle (Some ''https://x'')
     \<lparr>ev_outcomes = (outcome PredictRaises)\<lparr>rl_commit_fault := True\<rparr>, ev_time = 10,
      ev_form = \<lparr>form_From = Some ''+15550100'', form_MediaUrl0 = Some (media_ref ''A'')\<rparr>\<rparr> seeded =
     webhook (Some ''https://x'') ((outcome PredictRaises)\<lparr>rl_commit_fault := True\<rparr>) 10
       \<lparr>form_From = Some ''+15550100'', form_MediaUrl0 = Some (media_ref ''A'')\<rparr>
       (seeded\<lparr>redis := [rate_key ''+15550100'' \<mapsto> \<lparr>count = 1, expire_at = Some 86410\<rparr>]\<rparr>) \<and>
   handle (Some ''https://x'')
     \<lparr>ev_outcomes = (outcome PredictRaises)\<lparr>wh_query_fault := True\<rparr>, ev_time = 10,
      ev_form = \<lparr>form_From = Some ''+15550100'', form_MediaUrl0 = Some (media_ref ''A'')\<rparr>\<rparr> seeded =
     (InternalServerError DatabaseError,
      seeded\<lparr>redis := [rate_key ''+15550100'' \<mapsto> \<lparr>count = 1, expire_at = Some 86410\<rparr>],
             db := \<lparr>users = [alice\<lparr>last_request := Some 10, request_count := 1\<rparr>],
                    sessions = []\<rparr>\<rparr>) \<and>
   handle (Some ''https://x'')
     \<lparr>ev_outcomes = (outcome PredictRaises)\<lparr>wh_commit_fault := True\<rparr>, ev_time = 10,
      ev_form = \<lparr>form_From = Some ''+15550100'', form_MediaUrl0 = Some (media_ref ''A'')\<rparr>\<rparr> seeded =
     (InternalServerError DatabaseError,
      seeded\<lparr>redis := [rate_key ''+15550100'' \<mapsto> \<lparr>count = 1, expire_at = Some 86410\<rparr>],
             db := \<lparr>users = [alice\<lparr>last_request := Some 10, request_count := 1\<rparr>],
                    sessions = []\<rparr>\<rparr>)"
proof -
  let ?N = "Some ''https://x''"
  let ?p = "''+15550100''"
  let ?frm = "\<lparr>form_From = Some ?p, form_MediaUrl0 = Some (media_ref ''A'')\<rparr>"
  let ?e1 = "\<lparr>ev_outcomes = (outcome PredictRaises)\<lparr>redis_fault := True\<rparr>, ev_time = 10,
      ev_form = ?frm\<rparr>"
  let ?e2 = "\<lparr>ev_outcomes = (outcome PredictRaises)\<lparr>rl_commit_fault := True\<rparr>, ev_time = 10,
      ev_form = ?frm\<rparr>"
  let ?e3 = "\<lparr>ev_outcomes = (outcome PredictRaises)\<lparr>wh_query_fault := True\<rparr>, ev_time = 10,
      ev_form = ?frm\<rparr>"
  let ?e4 = "\<lparr>ev_outcomes = (outcome PredictRaises)\<lparr>wh_commit_fault := True\<rparr>, ev_time = 10,
      ev_form = ?frm\<rparr>"
  note defs = outcome_def check_limit_def redis_get_def redis_setex_def seeded_def first_user_def
    alice_def truthy_def media_ref_def first_active_session_def RATE_LIMIT_DURATION_def
  have p1: "form_From (ev_form ?e1) = Some ?p" by simp
  have p2: "form_From (ev_form ?e2) = Some ?p" by simp
  have p3: "form_From (ev_form ?e3) = Some ?p" by simp
  have p4: "form_From (ev_form ?e4) = Some ?p" by simp
  have ne: "?p \<noteq> []" by simp
  have r1: "redis_fault (ev_outcomes ?e1)" by simp
  have r2: "\<not> redis_fault (ev_outcomes ?e2) \<and>
       \<not> fst (check_limit (ev_time ?e2) (ev_time ?e2 + pipeline_delay (ev_outcomes ?e2)) ?p
               (redis seeded)) \<and>
       \<not> rl_query_fault (ev_outcomes ?e2) \<and>
       first_user (db seeded) (Some ?p) = Some alice"
    by (simp add: defs)
  have r3: "\<not> redis_fault (ev_outcomes ?e3) \<and>
       \<not> fst (check_limit (ev_time ?e3) (ev_time ?e3 + pipeline_delay (ev_outcomes ?e3)) ?p
               (redis seeded)) \<and>
       \<not> rl_query_fault (ev_outcomes ?e3) \<and>
       first_user (db seeded) (Some ?p) = Some alice"
    by (simp add: defs)
  have r4: "\<not> redis_fault (ev_outcomes ?e4) \<and>
       \<not> fst (check_limit (ev_time ?e4) (ev_time ?e4 + pipeline_delay (ev_outcomes ?e4)) ?p
               (redis seeded)) \<and>
       \<not> rl_query_fault (ev_outcomes ?e4) \<and>
       first_user (db seeded) (Some ?p) = Some alice"
    by (simp add: defs)
  have y2: "rl_commit_fault (ev_outcomes ?e2)" by simp
  have y3: "truthy (form_MediaUrl0 (ev_form ?e3)) \<and> wh_query_fault (ev_outcomes ?e3)"
    by (simp add: truthy_def media_ref_def)
  have y4: "truthy (form_MediaUrl0 (ev_form ?e4)) \<and> \<not> wh_query_fault (ev_outcomes ?e4) \<and>
      wh_commit_fault (ev_outcomes ?e4)"
    by (simp add: truthy_def media_ref_def outcome_def)
  note t1 = store_fault_handling [where ev = ?e1 and N = ?N and s = seeded, OF p1 ne,
      unfolded Let_def]
  note t2 = store_fault_handling [where ev = ?e2 and N = ?N and s = seeded, OF p2 ne,
      unfolded Let_def]
  note t3 = store_fault_handling [where ev = ?e3 and N = ?N and s = seeded, OF p3 ne,
      unfolded Let_def]
  note t4 = store_fault_handling [where ev = ?e4 and N = ?N and s = seeded, OF p4 ne,
      unfolded Let_def]
  note a = t1[THEN conjunct1, THEN mp, OF r1]
  note q2 = t2[THEN conjunct2, THEN conjunct2, THEN spec, of alice, THEN mp, OF r2]
  note q3 = t3[THEN conjunct2, THEN conjunct2, THEN spec, of alice, THEN mp, OF r3]
  note q4 = t4[THEN conjunct2, THEN conjunct2, THEN spec, of alice, THEN mp, OF r4]
  note b = q2[THEN conjunct2, THEN conjunct1, THEN mp, OF y2]
  note c = q3[THEN conjunct2, THEN conjunct2, THEN conjunct1, THEN mp, OF y3]
  note d = q4[THEN conjunct2, THEN conjunct2, THEN conjunct2, THEN mp, OF y4, THEN conjunct2]
  have b': "handle ?N ?e2 seeded =
     webhook ?N ((outcome PredictRaises)\<lparr>rl_commit_fault := True\<rparr>) 10 ?frm
       (seeded\<lparr>redis := [rate_key ?p \<mapsto> \<lparr>count = 1, expire_at = Some 86410\<rparr>]\<rparr>)"
    using b by (simp add: defs)
  have c': "handle ?N ?e3 seeded =
     (InternalServerError DatabaseError,
      seeded\<lparr>redis := [rate_key ?p \<mapsto> \<lparr>count = 1, expire_at = Some 86410\<rparr>],
             db := \<lparr>users = [alice\<lparr>last_request := Some 10, request_count := 1\<rparr>],
                    sessions = []\<rparr>\<rparr>)"
    using c by (simp add: defs)
  have d': "handle ?N ?e4 seeded =
     (InternalServerError DatabaseError,
      seeded\<lparr>redis := [rate_key ?p \<mapsto> \<lparr>count = 1, expire_at = Some 86410\<rparr>],
             db := \<lparr>users = [alice\<lparr>last_request := Some 10, request_count := 1\<rparr>],
                    sessions = []\<rparr>\<rparr>)"
    using d by (simp add: defs)
  from a b' c' d' show ?thesis by (intro conjI)
qed

end
